theory Spec2Isabelle
  imports Complex_Main
begin

section \<open>Data model (types.ts)\<close>

text \<open>
  JavaScript strings are modelled as \<^typ>\<open>string\<close> holding the UTF-8 bytes of the
  text, exactly the bytes of the literals in the source files. The code only concatenates
  strings, compares them as dictionary keys and hands them to platform functions, so the
  encoding does not matter for what is proved.
\<close>

text \<open>
  A run-time value that can reach a \<open>string\<close>-typed slot. Reading \<open>obj[key]\<close> on an
  object literal yields the own property when there is one, otherwise the member inherited
  from \<open>Object.prototype\<close> (a function or an object, never a string), otherwise
  \<open>undefined\<close>.
\<close>

datatype js_value = JString string | JUndefined | JInherited string

record TranslationRecord =
  id' :: string
  originalText :: string
  translatedText :: js_value
  fromLang :: string
  toLang :: string
  timestamp :: nat

record Language =
  code :: string
  name :: string
  flag :: string
  voice :: string

definition SUPPORTED_LANGUAGES :: "Language list" where
  "SUPPORTED_LANGUAGES = [
  \<lparr>code = ''fr'', name = ''Fran'' @ [CHR 0xC3, CHR 0x83, CHR 0xC2, CHR 0xA7] @ ''ais'',
    flag = [CHR 0xC4, CHR 0x9F, CHR 0xC5, CHR 0xB8, CHR 0xE2, CHR 0x80, CHR 0xA1, CHR 0xC2, CHR 0xAB, CHR 0xC4, CHR 0x9F, CHR 0xC5, CHR 0xB8, CHR 0xE2, CHR 0x80, CHR 0xA1, CHR 0xC2, CHR 0xB7],
    voice = ''Kore''\<rparr>,
  \<lparr>code = ''en'', name = ''English'',
    flag = [CHR 0xC4, CHR 0x9F, CHR 0xC5, CHR 0xB8, CHR 0xE2, CHR 0x80, CHR 0xA1, CHR 0xC2, CHR 0xBA, CHR 0xC4, CHR 0x9F, CHR 0xC5, CHR 0xB8, CHR 0xE2, CHR 0x80, CHR 0xA1, CHR 0xC2, CHR 0xB8],
    voice = ''Puck''\<rparr>,
  \<lparr>code = ''es'', name = ''Espa'' @ [CHR 0xC3, CHR 0x83, CHR 0xC2, CHR 0xB1] @ ''ol'',
    flag = [CHR 0xC4, CHR 0x9F, CHR 0xC5, CHR 0xB8, CHR 0xE2, CHR 0x80, CHR 0xA1, CHR 0xC2, CHR 0xAA, CHR 0xC4, CHR 0x9F, CHR 0xC5, CHR 0xB8, CHR 0xE2, CHR 0x80, CHR 0xA1, CHR 0xC2, CHR 0xB8],
    voice = ''Kore''\<rparr>,
  \<lparr>code = ''de'', name = ''Deutsch'',
    flag = [CHR 0xC4, CHR 0x9F, CHR 0xC5, CHR 0xB8, CHR 0xE2, CHR 0x80, CHR 0xA1, CHR 0xC2, CHR 0xA9, CHR 0xC4, CHR 0x9F, CHR 0xC5, CHR 0xB8, CHR 0xE2, CHR 0x80, CHR 0xA1, CHR 0xC2, CHR 0xAA],
    voice = ''Fenrir''\<rparr>,
  \<lparr>code = ''it'', name = ''Italiano'',
    flag = [CHR 0xC4, CHR 0x9F, CHR 0xC5, CHR 0xB8, CHR 0xE2, CHR 0x80, CHR 0xA1, CHR 0xC2, CHR 0xAE, CHR 0xC4, CHR 0x9F, CHR 0xC5, CHR 0xB8, CHR 0xE2, CHR 0x80, CHR 0xA1, CHR 0xC2, CHR 0xB9],
    voice = ''Kore''\<rparr>,
  \<lparr>code = ''ja'', name = [CHR 0xC3, CHR 0xA6, CHR 0xE2, CHR 0x80, CHR 0x94, CHR 0xC2, CHR 0xA5, CHR 0xC3, CHR 0xA6, CHR 0xC5, CHR 0x93, CHR 0xC2, CHR 0xAC, CHR 0xC3, CHR 0xA8, CHR 0xC2, CHR 0xAA],
    flag = [CHR 0xC4, CHR 0x9F, CHR 0xC5, CHR 0xB8, CHR 0xE2, CHR 0x80, CHR 0xA1, CHR 0xC2, CHR 0xAF, CHR 0xC4, CHR 0x9F, CHR 0xC5, CHR 0xB8, CHR 0xE2, CHR 0x80, CHR 0xA1, CHR 0xC2, CHR 0xB5],
    voice = ''Kore''\<rparr>,
  \<lparr>code = ''zh'', name = [CHR 0xC3, CHR 0xA4, CHR 0xC2, CHR 0xB8, CHR 0xC2, CHR 0xAD, CHR 0xC3, CHR 0xA6, CHR 0xE2, CHR 0x80, CHR 0x93, CHR 0xE2, CHR 0x80, CHR 0xA1],
    flag = [CHR 0xC4, CHR 0x9F, CHR 0xC5, CHR 0xB8, CHR 0xE2, CHR 0x80, CHR 0xA1, CHR 0xC2, CHR 0xA8, CHR 0xC4, CHR 0x9F, CHR 0xC5, CHR 0xB8, CHR 0xE2, CHR 0x80, CHR 0xA1, CHR 0xC2, CHR 0xB3],
    voice = ''Puck''\<rparr>,
  \<lparr>code = ''th'', name = ''Tha'' @ [CHR 0xC3, CHR 0x83, CHR 0xC2, CHR 0xAF],
    flag = [CHR 0xC4, CHR 0x9F, CHR 0xC5, CHR 0xB8, CHR 0xE2, CHR 0x80, CHR 0xA1, CHR 0xC2, CHR 0xB9, CHR 0xC4, CHR 0x9F, CHR 0xC5, CHR 0xB8, CHR 0xE2, CHR 0x80, CHR 0xA1, CHR 0xC2, CHR 0xAD],
    voice = ''Kore''\<rparr>,
  \<lparr>code = ''uk'', name = ''Ukrainien'',
    flag = [CHR 0xC4, CHR 0x9F, CHR 0xC5, CHR 0xB8, CHR 0xE2, CHR 0x80, CHR 0xA1, CHR 0xC2, CHR 0xBA, CHR 0xC4, CHR 0x9F, CHR 0xC5, CHR 0xB8, CHR 0xE2, CHR 0x80, CHR 0xA1, CHR 0xC2, CHR 0xA6],
    voice = ''Kore''\<rparr>,
  \<lparr>code = ''cs'', name = ''Tch'' @ [CHR 0xC3, CHR 0x83, CHR 0xC2, CHR 0xA8] @ ''que'',
    flag = [CHR 0xC4, CHR 0x9F, CHR 0xC5, CHR 0xB8, CHR 0xE2, CHR 0x80, CHR 0xA1, CHR 0xC2, CHR 0xA8, CHR 0xC4, CHR 0x9F, CHR 0xC5, CHR 0xB8, CHR 0xE2, CHR 0x80, CHR 0xA1, CHR 0xC2, CHR 0xBF],
    voice = ''Puck''\<rparr>,
  \<lparr>code = ''pl'', name = ''Polonais'',
    flag = [CHR 0xC4, CHR 0x9F, CHR 0xC5, CHR 0xB8, CHR 0xE2, CHR 0x80, CHR 0xA1, CHR 0xC2, CHR 0xB5, CHR 0xC4, CHR 0x9F, CHR 0xC5, CHR 0xB8, CHR 0xE2, CHR 0x80, CHR 0xA1, CHR 0xC2, CHR 0xB1],
    voice = ''Fenrir''\<rparr>]"

section \<open>The offline dictionary (App.tsx)\<close>

text \<open>
  An object literal is the list of its own properties in source order; the outer object
  maps a pair key to an inner object.
\<close>

type_synonym js_object = "(string \<times> string) list"

definition OFFLINE_DICTIONARY :: "(string \<times> js_object) list" where
  "OFFLINE_DICTIONARY = [
  (''fr-en'', [
    (''bonjour'', ''hello''),
    (''merci'', ''thank you''),
    (''s'il vous pla'' @ [CHR 0xC3, CHR 0xAE] @ ''t'', ''please''),
    (''o'' @ [CHR 0xC3, CHR 0xB9] @ '' est la gare ?'', ''where is the station?''),
    (''je suis perdu'', ''i am lost''),
    (''combien '' @ [CHR 0xC3, CHR 0xA7] @ ''a co'' @ [CHR 0xC3, CHR 0xBB] @ ''te ?'', ''how much does it cost?''),
    (''sant'' @ [CHR 0xC3, CHR 0xA9] @ '' !'', ''cheers!''),
    (''oui'', ''yes''),
    (''non'', ''no''),
    (''pardon'', ''excuse me'')]),
  (''en-fr'', [
    (''hello'', ''bonjour''),
    (''thank you'', ''merci''),
    (''please'', ''s'il vous pla'' @ [CHR 0xC3, CHR 0xAE] @ ''t''),
    (''where is the station?'', ''o'' @ [CHR 0xC3, CHR 0xB9] @ '' est la gare ?''),
    (''i am lost'', ''je suis perdu''),
    (''how much does it cost?'', ''combien '' @ [CHR 0xC3, CHR 0xA7] @ ''a co'' @ [CHR 0xC3, CHR 0xBB] @ ''te ?''),
    (''cheers!'', ''sant'' @ [CHR 0xC3, CHR 0xA9] @ '' !''),
    (''yes'', ''oui''),
    (''no'', ''non''),
    (''excuse me'', ''pardon'')])]"

text \<open>The property names every object literal inherits from \<open>Object.prototype\<close>.\<close>

definition Object_prototype_keys :: "string list" where
  "Object_prototype_keys =
    [''constructor'', ''__defineGetter__'', ''__defineSetter__'', ''hasOwnProperty'',
     ''__lookupGetter__'', ''__lookupSetter__'', ''isPrototypeOf'', ''propertyIsEnumerable'',
     ''toString'', ''valueOf'', ''__proto__'', ''toLocaleString'']"

text \<open>\<open>obj[key]\<close>: own property first, then the prototype, else \<open>undefined\<close>.\<close>

definition getProperty :: "js_object \<Rightarrow> string \<Rightarrow> js_value" where
  "getProperty obj key =
     (case map_of obj key of
        Some v \<Rightarrow> JString v
      | None \<Rightarrow> if key \<in> set Object_prototype_keys then JInherited key else JUndefined)"

text \<open>
  \<open>OFFLINE_DICTIONARY[pair]?.[normalizedText]\<close>. The pair key always contains a
  \<open>-\<close>, which no inherited property name does, so the outer read is an own-property
  read; a missing pair short-circuits to \<open>undefined\<close>.
\<close>

definition dictionaryLookup :: "string \<Rightarrow> string \<Rightarrow> js_value" where
  "dictionaryLookup pair normalizedText =
     (case map_of OFFLINE_DICTIONARY pair of
        None \<Rightarrow> JUndefined
      | Some d \<Rightarrow> getProperty d normalizedText)"

text \<open>JavaScript truthiness, as used by \<open>!translated\<close> and \<open>prev.user && prev.model\<close>.\<close>

fun truthy :: "js_value \<Rightarrow> bool" where
  "truthy (JString s) = (s \<noteq> [])"
| "truthy JUndefined = False"
| "truthy (JInherited k) = True"

section \<open>Platform and application state\<close>

text \<open>
  What the browser and the build supply and the component does not define:
  \<open>String.prototype.toLowerCase\<close>, \<open>String.prototype.trim\<close>, the text a member of
  \<open>Object.prototype\<close> converts to, the sum of two numbers, the decoder of \<open>services/audioUtils\<close> (base64
  payload, sample rate and channel count to audio buffer), whether a \<open>SpeechRecognition\<close> constructor exists,
  \<open>process.env.API_KEY\<close>, and whether \<open>getUserMedia\<close> and \<open>ai.live.connect\<close>
  succeed.
\<close>

text \<open>
  JavaScript numbers are modelled as reals: every double is a real, and an operation that
  rounds is a function on the reals supplied by the platform. The attributes of an
  \<open>AudioBuffer\<close> are what the browser reports; \<open>duration\<close> is the number of sample
  frames over the sample rate, in seconds, as the browser rounds it.
\<close>

record audio_buffer =
  frames :: nat
  sampleRate :: nat
  duration :: real

record platform =
  toLowerCase :: "string \<Rightarrow> string"
  trim :: "string \<Rightarrow> string"
  inheritedToString :: "string \<Rightarrow> string"
  addNumber :: "real \<Rightarrow> real \<Rightarrow> real"
  decodeAudioData :: "string \<Rightarrow> nat \<Rightarrow> nat \<Rightarrow> audio_buffer"
  speechRecognitionAvailable :: bool
  API_KEY :: "string option"
  getUserMediaGranted :: bool
  liveConnectOk :: bool

text \<open>An \<open>AudioBufferSourceNode\<close> once started: when it plays and what it plays.\<close>

record source_node =
  startAt :: real
  buffer :: audio_buffer

text \<open>Calls into the browser and the cloud SDK, logged in the order they are made.\<close>

datatype effect =
    Speak js_value string
  | Alert string
  | RecognitionStart string
  | RecognitionStop
  | NewGoogleGenAI
  | NewAudioContext nat
  | GetUserMedia
  | LiveConnect string
  | TrackStop
  | CloseInputAudioCtx
  | SourceStart source_node
  | SourceStop source_node

record transcription =
  user :: string
  model :: js_value

text \<open>The component's \<open>useState\<close> and \<open>useRef\<close> cells, \<open>localStorage\<close>, and the effect log.\<close>

record app_state =
  fromLang :: Language
  toLang :: Language
  isListening :: bool
  isOnline :: bool
  manualOffline :: bool
  history :: "TranslationRecord list"
  currentTranscription :: transcription
  inputAudioCtxRef :: bool
  outputAudioCtxRef :: bool
  nextStartTimeRef :: real
  sourcesRef :: "source_node list"
  sessionRef :: bool
  mediaStreamRef :: bool
  recognitionRef :: bool
  localStorage :: "string \<rightharpoonup> string"
  effects :: "effect list"

text \<open>The initial render: \<open>navigator.onLine\<close> and the stored data come from the browser.\<close>

definition initialState :: "bool \<Rightarrow> (string \<rightharpoonup> string) \<Rightarrow> app_state" where
  "initialState onLine storage =
     \<lparr>fromLang = SUPPORTED_LANGUAGES ! 0,
      toLang = SUPPORTED_LANGUAGES ! 1,
      isListening = False,
      isOnline = onLine,
      manualOffline = False,
      history = [],
      currentTranscription = \<lparr>user = [], model = JString []\<rparr>,
      inputAudioCtxRef = False,
      outputAudioCtxRef = False,
      nextStartTimeRef = 0,
      sourcesRef = [],
      sessionRef = False,
      mediaStreamRef = False,
      recognitionRef = False,
      localStorage = storage,
      effects = []\<rparr>"

definition isActuallyOffline :: "app_state \<Rightarrow> bool" where
  "isActuallyOffline st = (\<not> isOnline st \<or> manualOffline st)"

definition emit :: "effect \<Rightarrow> app_state \<Rightarrow> app_state" where
  "emit e st = st\<lparr>effects := effects st @ [e]\<rparr>"

text \<open>\<open>Number.prototype.toString\<close> on a non-negative integer: its decimal digits.\<close>

fun Number_toString :: "nat \<Rightarrow> string" where
  "Number_toString n =
     (if n < 10 then [''0123456789'' ! n]
      else Number_toString (n div 10) @ [''0123456789'' ! (n mod 10)])"

declare Number_toString.simps [simp del]

section \<open>Offline translation\<close>

definition fallbackText :: "string \<Rightarrow> string" where
  "fallbackText text = ''[Offline] '' @ [CHR 0x22] @ text @ [CHR 0x22]"

text \<open>The template string \<open>`${fromLang.code}-${toLang.code}`\<close>.\<close>

definition pairKey :: "Language \<Rightarrow> Language \<Rightarrow> string" where
  "pairKey from to = code from @ ''-'' @ code to"

text \<open>
  The first lines of \<open>handleOfflineTranslate\<close>: normalise, look up, and replace a
  falsy result by the fallback string, which quotes the text as it was given.
\<close>

definition offlineTranslation :: "platform \<Rightarrow> Language \<Rightarrow> Language \<Rightarrow> string \<Rightarrow> js_value" where
  "offlineTranslation P from to text =
     (let pair = pairKey from to;
          normalizedText = trim P (toLowerCase P text);
          translated = dictionaryLookup pair normalizedText
      in if \<not> truthy translated then JString (fallbackText text) else translated)"

text \<open>
  The rest of \<open>handleOfflineTranslate\<close>: show, speak, record. \<open>t_id\<close> and \<open>t_ts\<close>
  are the two readings of \<open>Date.now()\<close>.
\<close>

definition handleOfflineTranslate ::
  "platform \<Rightarrow> nat \<Rightarrow> nat \<Rightarrow> string \<Rightarrow> app_state \<Rightarrow> app_state" where
  "handleOfflineTranslate P t_id t_ts text st =
     (let translated = offlineTranslation P (app_state.fromLang st) (app_state.toLang st) text;
          newRecord = \<lparr>id' = Number_toString t_id,
                       originalText = text,
                       translatedText = translated,
                       TranslationRecord.fromLang = code (app_state.fromLang st),
                       TranslationRecord.toLang = code (app_state.toLang st),
                       timestamp = t_ts\<rparr>
      in (emit (Speak translated (code (app_state.toLang st)))
           (st\<lparr>currentTranscription := \<lparr>user = text, model = translated\<rparr>\<rparr>))
         \<lparr>history := take 50 (newRecord # history st)\<rparr>)"

section \<open>Language selection\<close>

text \<open>\<open>Array.prototype.indexOf\<close>: the first index holding the element, or \<open>-1\<close>.\<close>

fun indexOf :: "'a list \<Rightarrow> 'a \<Rightarrow> int" where
  "indexOf [] x = - 1"
| "indexOf (y # ys) x =
     (if y = x then 0 else (let i = indexOf ys x in if i < 0 then - 1 else i + 1))"

text \<open>
  The \<open>onClick\<close> handlers of the two selector buttons. The dividend of \<open>%\<close> is never
  negative, so the remainder is \<open>mod\<close>, and the index read is always inside the array.
\<close>

definition nextLanguage :: "Language \<Rightarrow> Language" where
  "nextLanguage l =
     SUPPORTED_LANGUAGES !
       nat ((indexOf SUPPORTED_LANGUAGES l + 1) mod int (length SUPPORTED_LANGUAGES))"

definition onClickFromLang :: "app_state \<Rightarrow> app_state" where
  "onClickFromLang st =
     (if \<not> isListening st then st\<lparr>fromLang := nextLanguage (app_state.fromLang st)\<rparr> else st)"

definition onClickToLang :: "app_state \<Rightarrow> app_state" where
  "onClickToLang st =
     (if \<not> isListening st then st\<lparr>toLang := nextLanguage (app_state.toLang st)\<rparr> else st)"

section \<open>Audio playback and sessions\<close>

text \<open>
  \<open>stopAllAudio\<close>: stop every source in the set, clear it, rewind the schedule. The
  \<open>onended\<close> callback that drops a finished source from the set is not modelled, so the
  set holds every source started since it was last cleared.
\<close>

definition stopAllAudio :: "app_state \<Rightarrow> app_state" where
  "stopAllAudio st =
     (foldl (\<lambda>s src. emit (SourceStop src) s) st (sourcesRef st))
       \<lparr>sourcesRef := [], nextStartTimeRef := 0\<rparr>"

definition startOfflineListening :: "platform \<Rightarrow> app_state \<Rightarrow> app_state" where
  "startOfflineListening P st =
     (if \<not> speechRecognitionAvailable P
      then emit (Alert (''Reconnaissance vocale non support'' @ [CHR 0xC3, CHR 0xA9]
                        @ ''e sur cet appareil en mode hors ligne.'')) st
      else emit (RecognitionStart (code (app_state.fromLang st))) (st\<lparr>recognitionRef := True\<rparr>))"

text \<open>
  \<open>startSession\<close>, up to the point where the session promise settles. Every failure inside
  the \<open>try\<close> block ends in the same \<open>catch\<close>.
\<close>

definition startSession :: "platform \<Rightarrow> app_state \<Rightarrow> app_state" where
  "startSession P st =
     (if isActuallyOffline st then startOfflineListening P st
      else if (case API_KEY P of None \<Rightarrow> True | Some k \<Rightarrow> k = [])
      then emit (Alert (''Cl'' @ [CHR 0xC3, CHR 0xA9] @ '' API manquante.'')) st
      else
        (let connectionError = Alert (''Erreur de connexion. V'' @ [CHR 0xC3, CHR 0xA9]
                                      @ ''rifiez votre micro.'');
             st1 = emit NewGoogleGenAI st;
             st2 = (emit (NewAudioContext 16000) st1)\<lparr>inputAudioCtxRef := True\<rparr>;
             st3 = (emit (NewAudioContext 24000) st2)\<lparr>outputAudioCtxRef := True\<rparr>;
             st4 = emit GetUserMedia st3
         in if \<not> getUserMediaGranted P then emit connectionError st4
            else
              (let st5 = emit (LiveConnect (voice (app_state.toLang st)))
                           (st4\<lparr>mediaStreamRef := True\<rparr>)
               in if \<not> liveConnectOk P then emit connectionError st5
                  else st5\<lparr>sessionRef := True, isListening := True\<rparr>)))"

definition stopSession :: "app_state \<Rightarrow> app_state" where
  "stopSession st =
     (let st1 = (if recognitionRef st then (emit RecognitionStop st)\<lparr>recognitionRef := False\<rparr>
                 else st);
          st2 = (if mediaStreamRef st1 then emit TrackStop st1 else st1);
          st3 = (if inputAudioCtxRef st2 then emit CloseInputAudioCtx st2 else st2);
          st4 = (stopAllAudio st3)\<lparr>isListening := False\<rparr>
      in if \<not> isActuallyOffline st
         then st4\<lparr>currentTranscription := \<lparr>user = [], model = JString []\<rparr>\<rparr>
         else st4)"

definition toggleTranslation :: "platform \<Rightarrow> app_state \<Rightarrow> app_state" where
  "toggleTranslation P st = (if isListening st then stopSession st else startSession P st)"

text \<open>The parts of a \<open>LiveServerMessage\<close> the handler reads.\<close>

record server_message =
  inputTranscription :: "string option"
  outputTranscription :: "string option"
  turnComplete :: bool
  inlineData :: "string option"
  interrupted :: bool

text \<open>\<open>prev.model + text\<close>: string concatenation after conversion to a string.\<close>

definition js_toString :: "platform \<Rightarrow> js_value \<Rightarrow> string" where
  "js_toString P v =
     (case v of JString s \<Rightarrow> s | JUndefined \<Rightarrow> ''undefined'' | JInherited k \<Rightarrow> inheritedToString P k)"

definition hasAudio :: "server_message \<Rightarrow> app_state \<Rightarrow> bool" where
  "hasAudio msg st =
     ((case inlineData msg of None \<Rightarrow> False | Some data \<Rightarrow> data \<noteq> []) \<and> outputAudioCtxRef st)"

text \<open>
  The first two updates of the handler: the pieces of transcription carried by the message
  are appended to what is shown.
\<close>

definition receivedTranscription :: "platform \<Rightarrow> server_message \<Rightarrow> transcription \<Rightarrow> transcription" where
  "receivedTranscription P msg prev =
     (let prev1 = (case inputTranscription msg of
                     None \<Rightarrow> prev
                   | Some text \<Rightarrow> prev\<lparr>user := user prev @ text\<rparr>)
      in case outputTranscription msg of
           None \<Rightarrow> prev1
         | Some text \<Rightarrow> prev1\<lparr>model := JString (js_toString P (model prev1) @ text)\<rparr>)"

text \<open>
  \<open>onmessage\<close> is asynchronous: it runs without interruption up to
  \<open>await decodeAudioData(...)\<close>, and its continuation runs later, possibly after the
  prefixes of other messages. \<open>onmessage_sync\<close> is the handler up to the \<open>await\<close>
  (and to its end, for a message without audio); \<open>currentTime\<close> is the reading of
  \<open>audioCtx.currentTime\<close>. The handler is a closure created by \<open>startSession\<close>:
  \<open>from\<close> and \<open>to\<close> are the \<open>fromLang\<close> and \<open>toLang\<close> of the render in which
  \<open>startSession\<close> ran, which is what the handler reads, whatever the selection is when
  the message arrives. The state updates queued by one handler are applied in the order
  they were queued.
\<close>

definition onmessage_sync ::
  "platform \<Rightarrow> Language \<Rightarrow> Language \<Rightarrow> nat \<Rightarrow> nat \<Rightarrow> real \<Rightarrow> server_message
     \<Rightarrow> app_state \<Rightarrow> app_state" where
  "onmessage_sync P from to t_id t_ts currentTime msg st =
     (let prev = receivedTranscription P msg (currentTranscription st);
          st1 = (if turnComplete msg
                 then (let newRecord = \<lparr>id' = Number_toString t_id,
                                        originalText = user prev,
                                        translatedText = model prev,
                                        TranslationRecord.fromLang = code from,
                                        TranslationRecord.toLang = code to,
                                        timestamp = t_ts\<rparr>;
                           st' = (if user prev \<noteq> [] \<and> truthy (model prev)
                                  then st\<lparr>history := take 50 (newRecord # history st)\<rparr>
                                  else st)
                       in st'\<lparr>currentTranscription := \<lparr>user = [], model = JString []\<rparr>\<rparr>)
                 else st\<lparr>currentTranscription := prev\<rparr>)
      in if hasAudio msg st1
         then st1\<lparr>nextStartTimeRef := max (nextStartTimeRef st1) currentTime\<rparr>
         else if interrupted msg then stopAllAudio st1 else st1)"

text \<open>
  The continuation after the \<open>await\<close>, for a message whose audio payload is \<open>data\<close>:
  start the source at the scheduled time, advance the schedule by the buffer's duration,
  remember the source, then honour \<open>interrupted\<close>.
\<close>

definition onmessage_resume :: "platform \<Rightarrow> string \<Rightarrow> bool \<Rightarrow> app_state \<Rightarrow> app_state" where
  "onmessage_resume P data isInterrupted st =
     (let audioBuffer = decodeAudioData P data 24000 1;
          source = \<lparr>startAt = nextStartTimeRef st, buffer = audioBuffer\<rparr>;
          st1 = (emit (SourceStart source) st)
                  \<lparr>nextStartTimeRef := addNumber P (nextStartTimeRef st) (duration audioBuffer),
                   sourcesRef := sourcesRef st @ [source]\<rparr>
      in if isInterrupted then stopAllAudio st1 else st1)"

text \<open>The whole handler when nothing else runs during the \<open>await\<close>.\<close>

definition onmessage ::
  "platform \<Rightarrow> Language \<Rightarrow> Language \<Rightarrow> nat \<Rightarrow> nat \<Rightarrow> real \<Rightarrow> server_message
     \<Rightarrow> app_state \<Rightarrow> app_state" where
  "onmessage P from to t_id t_ts currentTime msg st =
     (let st1 = onmessage_sync P from to t_id t_ts currentTime msg st
      in case inlineData msg of
           None \<Rightarrow> st1
         | Some data \<Rightarrow>
             if data \<noteq> [] \<and> outputAudioCtxRef st
             then onmessage_resume P data (interrupted msg) st1
             else st1)"

text \<open>
  A run of the message pipeline is a sequence of uninterrupted handler segments: the prefix
  of a message, or the continuation of an earlier one.
\<close>

datatype segment =
    Before Language Language nat nat real server_message
  | After string bool

fun run_segment :: "platform \<Rightarrow> segment \<Rightarrow> app_state \<Rightarrow> app_state" where
  "run_segment P (Before from to t_id t_ts currentTime msg) st =
     onmessage_sync P from to t_id t_ts currentTime msg st"
| "run_segment P (After data isInterrupted) st = onmessage_resume P data isInterrupted st"









section \<open>Persistence\<close>

text \<open>
  \<open>JSON.stringify\<close> and \<open>JSON.parse\<close> on the history, as ECMAScript defines them for
  an array of flat objects with string and number members, over the byte representation of
  strings. A quoted string escapes the quotation mark, the backslash and the control
  characters; every other byte stands for itself.
\<close>

definition controlChars :: "char list" where
  "controlChars =
    [CHR 0x00, CHR 0x01, CHR 0x02, CHR 0x03, CHR 0x04, CHR 0x05, CHR 0x06, CHR 0x07,
     CHR 0x08, CHR 0x09, CHR 0x0A, CHR 0x0B, CHR 0x0C, CHR 0x0D, CHR 0x0E, CHR 0x0F,
     CHR 0x10, CHR 0x11, CHR 0x12, CHR 0x13, CHR 0x14, CHR 0x15, CHR 0x16, CHR 0x17,
     CHR 0x18, CHR 0x19, CHR 0x1A, CHR 0x1B, CHR 0x1C, CHR 0x1D, CHR 0x1E, CHR 0x1F]"

definition escapes :: "(char \<times> string) list" where
  "escapes =
    [(CHR 0x22, [CHR 0x5C, CHR 0x22]),
     (CHR 0x5C, [CHR 0x5C, CHR 0x5C]),
     (CHR 0x00, [CHR 0x5C] @ ''u0000''),
     (CHR 0x01, [CHR 0x5C] @ ''u0001''),
     (CHR 0x02, [CHR 0x5C] @ ''u0002''),
     (CHR 0x03, [CHR 0x5C] @ ''u0003''),
     (CHR 0x04, [CHR 0x5C] @ ''u0004''),
     (CHR 0x05, [CHR 0x5C] @ ''u0005''),
     (CHR 0x06, [CHR 0x5C] @ ''u0006''),
     (CHR 0x07, [CHR 0x5C] @ ''u0007''),
     (CHR 0x08, [CHR 0x5C] @ ''b''),
     (CHR 0x09, [CHR 0x5C] @ ''t''),
     (CHR 0x0A, [CHR 0x5C] @ ''n''),
     (CHR 0x0B, [CHR 0x5C] @ ''u000b''),
     (CHR 0x0C, [CHR 0x5C] @ ''f''),
     (CHR 0x0D, [CHR 0x5C] @ ''r''),
     (CHR 0x0E, [CHR 0x5C] @ ''u000e''),
     (CHR 0x0F, [CHR 0x5C] @ ''u000f''),
     (CHR 0x10, [CHR 0x5C] @ ''u0010''),
     (CHR 0x11, [CHR 0x5C] @ ''u0011''),
     (CHR 0x12, [CHR 0x5C] @ ''u0012''),
     (CHR 0x13, [CHR 0x5C] @ ''u0013''),
     (CHR 0x14, [CHR 0x5C] @ ''u0014''),
     (CHR 0x15, [CHR 0x5C] @ ''u0015''),
     (CHR 0x16, [CHR 0x5C] @ ''u0016''),
     (CHR 0x17, [CHR 0x5C] @ ''u0017''),
     (CHR 0x18, [CHR 0x5C] @ ''u0018''),
     (CHR 0x19, [CHR 0x5C] @ ''u0019''),
     (CHR 0x1A, [CHR 0x5C] @ ''u001a''),
     (CHR 0x1B, [CHR 0x5C] @ ''u001b''),
     (CHR 0x1C, [CHR 0x5C] @ ''u001c''),
     (CHR 0x1D, [CHR 0x5C] @ ''u001d''),
     (CHR 0x1E, [CHR 0x5C] @ ''u001e''),
     (CHR 0x1F, [CHR 0x5C] @ ''u001f'')]"

definition escapeChar :: "char \<Rightarrow> string" where
  "escapeChar c = (case map_of escapes c of Some e \<Rightarrow> e | None \<Rightarrow> [c])"

definition printString :: "string \<Rightarrow> string" where
  "printString s = CHR 0x22 # concat (map escapeChar s) @ [CHR 0x22]"

text \<open>The punctuation and member names between the values of one record.\<close>

definition memberId :: string where
  "memberId = (''{'' @ [CHR 0x22] @ ''id'' @ [CHR 0x22] @ '':'')"

definition memberOriginalText :: string where
  "memberOriginalText = ('','' @ [CHR 0x22] @ ''originalText'' @ [CHR 0x22] @ '':'')"

definition memberTranslatedText :: string where
  "memberTranslatedText = ('','' @ [CHR 0x22] @ ''translatedText'' @ [CHR 0x22] @ '':'')"

definition memberFromLang :: string where
  "memberFromLang = ('','' @ [CHR 0x22] @ ''fromLang'' @ [CHR 0x22] @ '':'')"

definition memberToLang :: string where
  "memberToLang = ('','' @ [CHR 0x22] @ ''toLang'' @ [CHR 0x22] @ '':'')"

definition memberTimestamp :: string where
  "memberTimestamp = ('','' @ [CHR 0x22] @ ''timestamp'' @ [CHR 0x22] @ '':'')"

text \<open>
  One record: its members in the order the object literal created them. A member whose
  value is \<open>undefined\<close> or a function is left out; \<open>Object.prototype\<close> itself, the value
  inherited under \<open>__proto__\<close>, has no enumerable member and is written \<open>{}\<close>.
\<close>

definition printTranslated :: "js_value \<Rightarrow> string" where
  "printTranslated v =
     (case v of
        JString s \<Rightarrow> memberTranslatedText @ printString s
      | JUndefined \<Rightarrow> []
      | JInherited k \<Rightarrow> if k = ''__proto__'' then (memberTranslatedText @ ''{}'') else [])"

definition printRecord :: "TranslationRecord \<Rightarrow> string" where
  "printRecord r =
     memberId @ printString (id' r)
     @ memberOriginalText @ printString (originalText r)
     @ printTranslated (translatedText r)
     @ memberFromLang @ printString (TranslationRecord.fromLang r)
     @ memberToLang @ printString (TranslationRecord.toLang r)
     @ memberTimestamp @ Number_toString (timestamp r)
     @ ''}''"

fun printRecords :: "TranslationRecord list \<Rightarrow> string" where
  "printRecords [] = []"
| "printRecords [r] = printRecord r"
| "printRecords (r # rs) = printRecord r @ '','' @ printRecords rs"

definition JSON_stringify :: "TranslationRecord list \<Rightarrow> string" where
  "JSON_stringify h = ''['' @ printRecords h @ '']''"

text \<open>
  The parser reads back exactly the texts \<open>JSON_stringify\<close> writes. \<open>Unmodelled\<close> stands
  for every other text: one \<open>JSON.parse\<close> rejects, or one it turns into a value that is not
  a list of such records.
\<close>

datatype json_error = Unmodelled

definition bind :: "json_error + 'a \<Rightarrow> ('a \<Rightarrow> json_error + 'b) \<Rightarrow> json_error + 'b" where
  "bind m f = (case m of Inl e \<Rightarrow> Inl e | Inr a \<Rightarrow> f a)"

definition expect :: "string \<Rightarrow> string \<Rightarrow> json_error + string" where
  "expect lit input =
     (if take (length lit) input = lit then Inr (drop (length lit) input) else Inl Unmodelled)"

definition consTo :: "char \<Rightarrow> json_error + (string \<times> string) \<Rightarrow> json_error + (string \<times> string)" where
  "consTo c r = (case r of Inl e \<Rightarrow> Inl e | Inr (s, rest) \<Rightarrow> Inr (c # s, rest))"

definition hexVal :: "char \<Rightarrow> nat option" where
  "hexVal c =
     map_of (zip ''0123456789abcdefABCDEF''
               [0, 1, 2, 3, 4, 5, 6, 7, 8, 9, 10, 11, 12, 13, 14, 15, 10, 11, 12, 13, 14, 15]) c"

text \<open>The code unit written as four hexadecimal digits.\<close>

definition hexCode :: "char \<Rightarrow> char \<Rightarrow> char \<Rightarrow> char \<Rightarrow> nat option" where
  "hexCode h1 h2 h3 h4 =
     (case (hexVal h1, hexVal h2, hexVal h3, hexVal h4) of
        (Some a, Some b, Some c, Some d) \<Rightarrow> Some (((a * 16 + b) * 16 + c) * 16 + d)
      | _ \<Rightarrow> None)"

definition simpleEscapes :: "(char \<times> char) list" where
  "simpleEscapes =
     [(CHR 0x22, CHR 0x22), (CHR 0x5C, CHR 0x5C), (CHR ''/'', CHR ''/''),
      (CHR ''b'', CHR 0x08), (CHR ''f'', CHR 0x0C), (CHR ''n'', CHR 0x0A),
      (CHR ''r'', CHR 0x0D), (CHR ''t'', CHR 0x09)]"

text \<open>
  The characters of a string after its opening quotation mark, up to the closing one. Of
  the escapes by code unit only those of control characters are read back.
\<close>

fun parseChars :: "string \<Rightarrow> json_error + (string \<times> string)" where
  "parseChars [] = Inl Unmodelled"
| "parseChars (c # cs) =
     (if c = CHR 0x22 then Inr ([], cs)
      else if c = CHR 0x5C then
        (case cs of
           [] \<Rightarrow> Inl Unmodelled
         | e # cs1 \<Rightarrow>
             if e = CHR ''u'' then
               (case cs1 of
                  h1 # h2 # h3 # h4 # cs2 \<Rightarrow>
                    (case hexCode h1 h2 h3 h4 of
                       None \<Rightarrow> Inl Unmodelled
                     | Some n \<Rightarrow>
                         if n < 32 then consTo (controlChars ! n) (parseChars cs2)
                         else Inl Unmodelled)
                | _ \<Rightarrow> Inl Unmodelled)
             else
               (case map_of simpleEscapes e of
                  None \<Rightarrow> Inl Unmodelled
                | Some b \<Rightarrow> consTo b (parseChars cs1)))
      else if c \<in> set controlChars then Inl Unmodelled
      else consTo c (parseChars cs))"

definition parseString :: "string \<Rightarrow> json_error + (string \<times> string)" where
  "parseString input =
     (case input of
        [] \<Rightarrow> Inl Unmodelled
      | q # cs \<Rightarrow> if q = CHR 0x22 then parseChars cs else Inl Unmodelled)"

definition isDigit :: "char \<Rightarrow> bool" where
  "isDigit c = (c \<in> set ''0123456789'')"

definition digitVal :: "char \<Rightarrow> nat" where
  "digitVal c = length (takeWhile (\<lambda>d. d \<noteq> c) ''0123456789'')"

text \<open>A non-negative integer without sign, fraction or exponent, and without a leading zero.\<close>

definition parseNumber :: "string \<Rightarrow> json_error + (nat \<times> string)" where
  "parseNumber input =
     (let ds = takeWhile isDigit input
      in if ds = [] \<or> (hd ds = CHR ''0'' \<and> 1 < length ds) then Inl Unmodelled
         else Inr (foldl (\<lambda>n d. 10 * n + digitVal d) 0 ds, dropWhile isDigit input))"

definition parseTranslated :: "string \<Rightarrow> json_error + (js_value \<times> string)" where
  "parseTranslated input =
     (case expect memberTranslatedText input of
        Inl e \<Rightarrow> Inr (JUndefined, input)
      | Inr i1 \<Rightarrow> bind (parseString i1) (\<lambda>(s, rest). Inr (JString s, rest)))"

definition parseRecord :: "string \<Rightarrow> json_error + (TranslationRecord \<times> string)" where
  "parseRecord input =
     bind (expect memberId input) (\<lambda>i1.
     bind (parseString i1) (\<lambda>(rid, i2).
     bind (expect memberOriginalText i2) (\<lambda>i3.
     bind (parseString i3) (\<lambda>(orig, i4).
     bind (parseTranslated i4) (\<lambda>(translated, i5).
     bind (expect memberFromLang i5) (\<lambda>i6.
     bind (parseString i6) (\<lambda>(from, i7).
     bind (expect memberToLang i7) (\<lambda>i8.
     bind (parseString i8) (\<lambda>(to, i9).
     bind (expect memberTimestamp i9) (\<lambda>i10.
     bind (parseNumber i10) (\<lambda>(ts, i11).
     bind (expect ''}'' i11) (\<lambda>i12.
       Inr (\<lparr>id' = rid, originalText = orig, translatedText = translated,
             TranslationRecord.fromLang = from, TranslationRecord.toLang = to,
             timestamp = ts\<rparr>, i12)))))))))))))"

lemma expect_length: "expect lit input = Inr rest \<Longrightarrow> length rest \<le> length input"
  by (auto simp: expect_def split: if_splits)

lemma expect_length_strict:
  "expect (c # lit) input = Inr rest \<Longrightarrow> length rest < length input"
  by (cases input) (auto simp: expect_def split: if_splits)

lemma parseChars_length: "parseChars input = Inr (s, rest) \<Longrightarrow> length rest < length input"
proof (induction input arbitrary: s rule: parseChars.induct)
  case 1
  then show ?case by simp
next
  case (2 c cs)
  show ?case
  proof (cases "c = CHR 0x22")
    case True
    with "2.prems" show ?thesis by simp
  next
    case notq: False
    show ?thesis
    proof (cases "c = CHR 0x5C")
      case False
      with notq "2.prems" "2.IH"(3) show ?thesis
        by (fastforce simp: consTo_def split: if_splits sum.splits prod.splits)
    next
      case True
      with notq "2.prems" obtain e cs1 where cs: "cs = e # cs1"
        by (cases cs) auto
      show ?thesis
      proof (cases "e = CHR ''u''")
        case False
        with True notq cs "2.prems" "2.IH"(2) [OF notq True cs False] show ?thesis
          by (fastforce simp: consTo_def split: option.splits sum.splits prod.splits)
      next
        case u: True
        with True notq cs "2.prems" obtain h1 h2 h3 h4 cs2 n
          where cs1: "cs1 = h1 # h2 # h3 # h4 # cs2"
            and hc: "hexCode h1 h2 h3 h4 = Some n" and n: "n < 32"
          by (auto split: list.splits option.splits if_splits)
        with True notq cs u "2.prems" "2.IH"(1) [OF notq True cs u cs1 refl refl refl hc n]
        show ?thesis
          by (fastforce simp: consTo_def split: sum.splits prod.splits)
      qed
    qed
  qed
qed

lemma parseString_length: "parseString input = Inr (s, rest) \<Longrightarrow> length rest < length input"
  by (cases input) (auto simp: parseString_def dest!: parseChars_length split: if_splits)

lemma parseNumber_length: "parseNumber input = Inr (n, rest) \<Longrightarrow> length rest \<le> length input"
  by (auto simp: parseNumber_def Let_def length_dropWhile_le split: if_splits)

lemma parseTranslated_length:
  "parseTranslated input = Inr (v, rest) \<Longrightarrow> length rest \<le> length input"
  by (auto simp: parseTranslated_def bind_def split: sum.splits prod.splits
           dest!: expect_length parseString_length)

lemma parseRecord_length:
  assumes "parseRecord input = Inr (r, rest)"
  shows "length rest < length input"
proof -
  from assms obtain i1 rid i2 i3 orig i4 translated i5 i6 frm i7 i8 to i9 i10 ts i11
    where s: "expect memberId input = Inr i1"
      "parseString i1 = Inr (rid, i2)"
      "expect memberOriginalText i2 = Inr i3"
      "parseString i3 = Inr (orig, i4)"
      "parseTranslated i4 = Inr (translated, i5)"
      "expect memberFromLang i5 = Inr i6"
      "parseString i6 = Inr (frm, i7)"
      "expect memberToLang i7 = Inr i8"
      "parseString i8 = Inr (to, i9)"
      "expect memberTimestamp i9 = Inr i10"
      "parseNumber i10 = Inr (ts, i11)"
      "expect ''}'' i11 = Inr rest"
    unfolding parseRecord_def bind_def
    by (auto split: sum.splits prod.splits)
  from s(1) have "length i1 \<le> length input" by (rule expect_length)
  moreover from s(2) have "length i2 < length i1" by (rule parseString_length)
  moreover from s(3) have "length i3 \<le> length i2" by (rule expect_length)
  moreover from s(4) have "length i4 < length i3" by (rule parseString_length)
  moreover from s(5) have "length i5 \<le> length i4" by (rule parseTranslated_length)
  moreover from s(6) have "length i6 \<le> length i5" by (rule expect_length)
  moreover from s(7) have "length i7 < length i6" by (rule parseString_length)
  moreover from s(8) have "length i8 \<le> length i7" by (rule expect_length)
  moreover from s(9) have "length i9 < length i8" by (rule parseString_length)
  moreover from s(10) have "length i10 \<le> length i9" by (rule expect_length)
  moreover from s(11) have "length i11 \<le> length i10" by (rule parseNumber_length)
  moreover from s(12) have "length rest \<le> length i11" by (rule expect_length)
  ultimately show ?thesis by linarith
qed

text \<open>The records of a non-empty array after its opening bracket, up to the closing one.\<close>

function parseRecords :: "string \<Rightarrow> json_error + (TranslationRecord list \<times> string)" where
  "parseRecords input =
     (case parseRecord input of
        Inl e \<Rightarrow> Inl e
      | Inr (r, rest) \<Rightarrow>
          (case rest of
             [] \<Rightarrow> Inl Unmodelled
           | c # cs \<Rightarrow>
               if c = CHR '','' then
                 (case parseRecords cs of
                    Inl e \<Rightarrow> Inl e
                  | Inr (rs, rest') \<Rightarrow> Inr (r # rs, rest'))
               else if c = CHR '']'' then Inr ([r], cs)
               else Inl Unmodelled))"
  by pat_completeness auto
termination
proof (relation "measure length")
  show "wf (measure length)" by simp
next
  fix input x2 x y c cs
  assume "parseRecord input = Inr x2" "(x, y) = x2" "y = c # cs"
  then have "parseRecord input = Inr (x, c # cs)" by simp
  then have "length (c # cs) < length input" by (rule parseRecord_length)
  then show "(cs, input) \<in> measure length" by simp
qed

definition JSON_parse :: "string \<Rightarrow> json_error + TranslationRecord list" where
  "JSON_parse input =
     (case input of
        [] \<Rightarrow> Inl Unmodelled
      | c # cs \<Rightarrow>
          if c \<noteq> CHR ''['' then Inl Unmodelled
          else if cs = '']'' then Inr []
          else (case parseRecords cs of
                  Inl e \<Rightarrow> Inl e
                | Inr (h, rest) \<Rightarrow> if rest = [] then Inr h else Inl Unmodelled))"

declare parseRecords.simps [simp del]

text \<open>
  The two effects of the component. The second one writes the history under the key
  \<open>lingoflow_history\<close>; React runs it after the first render and after every render in
  which \<open>history\<close> has changed, which \<open>commit\<close> models. The first one runs once, at
  startup, and reads the key back: a value that is present and not empty is parsed and
  becomes the history. \<open>mount\<close> is the startup as a whole: the first effect reads, the
  second writes the still empty history, and the update queued by the first triggers the
  second again.
\<close>

definition storageKey :: string where
  "storageKey = ''lingoflow_history''"

definition persistHistory :: "app_state \<Rightarrow> app_state" where
  "persistHistory st =
     st\<lparr>localStorage := (localStorage st)(storageKey \<mapsto> JSON_stringify (history st))\<rparr>"

definition commit :: "app_state \<Rightarrow> app_state \<Rightarrow> app_state" where
  "commit before after =
     (if history after \<noteq> history before then persistHistory after else after)"

definition loadHistory :: "app_state \<Rightarrow> json_error + app_state" where
  "loadHistory st =
     (case localStorage st storageKey of
        None \<Rightarrow> Inr st
      | Some saved \<Rightarrow>
          if saved = [] then Inr st
          else (case JSON_parse saved of
                  Inl e \<Rightarrow> Inl e
                | Inr h \<Rightarrow> Inr (st\<lparr>history := h\<rparr>)))"

definition mount :: "bool \<Rightarrow> (string \<rightharpoonup> string) \<Rightarrow> json_error + app_state" where
  "mount onLine storage =
     (let st0 = initialState onLine storage
      in case loadHistory st0 of
           Inl e \<Rightarrow> Inl e
         | Inr st1 \<Rightarrow>
             Inr (commit (persistHistory st0) ((persistHistory st0)\<lparr>history := history st1\<rparr>)))"

text \<open>A record as the interface \<open>TranslationRecord\<close> types it: its translated text is a string.\<close>

definition wellTyped :: "TranslationRecord \<Rightarrow> bool" where
  "wellTyped r = (case translatedText r of JString s \<Rightarrow> True | _ \<Rightarrow> False)"

section \<open>The operations of the mounted component\<close>

text \<open>
  What runs once the component is mounted: \<open>handleOfflineTranslate\<close> on a recognised
  text, a segment of the message handler, the two selector buttons, the microphone button,
  and \<open>stopSession\<close> called from a callback. After each, React renders again and runs
  the persisting effect if the history has changed.
\<close>

datatype operation =
    OfflineTranslate nat nat string
  | Handler segment
  | ClickFromLang
  | ClickToLang
  | ToggleTranslation
  | StopSession

fun perform :: "platform \<Rightarrow> operation \<Rightarrow> app_state \<Rightarrow> app_state" where
  "perform P (OfflineTranslate t_id t_ts text) st =
     commit st (handleOfflineTranslate P t_id t_ts text st)"
| "perform P (Handler seg) st = commit st (run_segment P seg st)"
| "perform P ClickFromLang st = commit st (onClickFromLang st)"
| "perform P ClickToLang st = commit st (onClickToLang st)"
| "perform P ToggleTranslation st = commit st (toggleTranslation P st)"
| "perform P StopSession st = commit st (stopSession st)"

fun performAll :: "platform \<Rightarrow> app_state \<Rightarrow> operation list \<Rightarrow> app_state" where
  "performAll P st [] = st"
| "performAll P st (op # ops) = performAll P (perform P op st) ops"

text \<open>How many entries the history holds after a startup, if the startup succeeds.\<close>

definition shownAfter :: "json_error + app_state \<Rightarrow> nat option" where
  "shownAfter r = (case r of Inl e \<Rightarrow> None | Inr st \<Rightarrow> Some (length (history st)))"

section \<open>Concrete inputs for evaluation\<close>

text \<open>
  Lower-casing and trimming as ECMAScript does them on ASCII text; bytes outside ASCII are
  left alone. It is used to run the model on concrete ASCII inputs.
\<close>

definition ascii_toLowerCase :: "string \<Rightarrow> string" where
  "ascii_toLowerCase s =
     map (\<lambda>c. case map_of (zip ''ABCDEFGHIJKLMNOPQRSTUVWXYZ'' ''abcdefghijklmnopqrstuvwxyz'') c of
                 Some l \<Rightarrow> l
               | None \<Rightarrow> c) s"

definition isAsciiWhiteSpace :: "char \<Rightarrow> bool" where
  "isAsciiWhiteSpace c =
     (c \<in> set [CHR 0x09, CHR 0x0A, CHR 0x0B, CHR 0x0C, CHR 0x0D, CHR 0x20])"

definition ascii_trim :: "string \<Rightarrow> string" where
  "ascii_trim s = rev (dropWhile isAsciiWhiteSpace (rev (dropWhile isAsciiWhiteSpace s)))"

definition ascii_platform :: platform where
  "ascii_platform =
     \<lparr>toLowerCase = ascii_toLowerCase,
      trim = ascii_trim,
      inheritedToString = (\<lambda>k. ''function '' @ k @ ''() { [native code] }''),
      addNumber = (\<lambda>a b. a + b),
      decodeAudioData =
        (\<lambda>data rate channels.
           \<lparr>frames = 2 * length data, sampleRate = rate,
            duration = real (2 * length data) / real rate\<rparr>),
      speechRecognitionAvailable = True,
      API_KEY = Some ''key'',
      getUserMediaGranted = True,
      liveConnectOk = True\<rparr>"

text \<open>English to French selected, network down: the state used to run the offline path.\<close>

definition en_fr_state :: app_state where
  "en_fr_state = (initialState False Map.empty)
      \<lparr>fromLang := SUPPORTED_LANGUAGES ! 1, toLang := SUPPORTED_LANGUAGES ! 0\<rparr>"



text \<open>A server message that closes a turn with both transcriptions.\<close>

definition turnMessage :: "string \<Rightarrow> string \<Rightarrow> server_message" where
  "turnMessage said translated =
     \<lparr>inputTranscription = Some said, outputTranscription = Some translated,
      turnComplete = True, inlineData = None, interrupted = False\<rparr>"

text \<open>A record to run the model on.\<close>

definition sampleRecord :: TranslationRecord where
  "sampleRecord =
     \<lparr>id' = ''17'', originalText = ''Bonjour'', translatedText = JString ''hello'',
      TranslationRecord.fromLang = ''fr'', TranslationRecord.toLang = ''en'', timestamp = 18\<rparr>"

text \<open>A state whose history is full, and a store that holds one record more than that.\<close>

definition fullHistory_state :: app_state where
  "fullHistory_state = (initialState True Map.empty)\<lparr>history := replicate 50 sampleRecord\<rparr>"

definition overlongStorage :: "string \<rightharpoonup> string" where
  "overlongStorage = Map.empty(storageKey \<mapsto> JSON_stringify (replicate 51 sampleRecord))"



section \<open>Properties of the dictionary and of offline translation\<close>

lemma pairKey_fr_en: "pairKey (SUPPORTED_LANGUAGES ! 0) (SUPPORTED_LANGUAGES ! 1) = ''fr-en''"
  by (simp add: pairKey_def SUPPORTED_LANGUAGES_def)

lemma pairKey_en_fr: "pairKey (SUPPORTED_LANGUAGES ! 1) (SUPPORTED_LANGUAGES ! 0) = ''en-fr''"
  by (simp add: pairKey_def SUPPORTED_LANGUAGES_def)

lemma dictionaryLookup_JString_nonempty:
  "dictionaryLookup pair k = JString v \<Longrightarrow> v \<noteq> []"
  by (auto simp: dictionaryLookup_def OFFLINE_DICTIONARY_def getProperty_def
           split: if_splits option.splits)

lemma dictionaryLookup_fr_en_iff:
  "(dictionaryLookup ''fr-en'' p = JString q) = (dictionaryLookup ''en-fr'' q = JString p)"
  by (auto simp: dictionaryLookup_def OFFLINE_DICTIONARY_def getProperty_def
           split: if_splits option.splits)

lemma offlineTranslation_hit:
  assumes "dictionaryLookup (pairKey from to) (trim P (toLowerCase P text)) = JString v"
  shows "offlineTranslation P from to text = JString v"
  using assms dictionaryLookup_JString_nonempty [OF assms]
  by (simp add: offlineTranslation_def Let_def)

lemma offlineTranslation_miss:
  assumes "dictionaryLookup (pairKey from to) (trim P (toLowerCase P text)) = JUndefined"
  shows "offlineTranslation P from to text = JString (fallbackText text)"
  using assms by (simp add: offlineTranslation_def Let_def)

lemma handleOfflineTranslate_transcription:
  "currentTranscription (handleOfflineTranslate P t_id t_ts text st) =
     \<lparr>user = text, model = offlineTranslation P (app_state.fromLang st) (app_state.toLang st) text\<rparr>"
  by (simp add: handleOfflineTranslate_def Let_def emit_def)

lemma handleOfflineTranslate_history:
  "history (handleOfflineTranslate P t_id t_ts text st) =
     take 50 (\<lparr>id' = Number_toString t_id, originalText = text,
        translatedText = offlineTranslation P (app_state.fromLang st) (app_state.toLang st) text,
        TranslationRecord.fromLang = code (app_state.fromLang st),
        TranslationRecord.toLang = code (app_state.toLang st),
        timestamp = t_ts\<rparr> # history st)"
  by (simp add: handleOfflineTranslate_def Let_def emit_def)

lemmas ascii_normalise =
  ascii_platform_def ascii_trim_def ascii_toLowerCase_def isAsciiWhiteSpace_def

lemma initialState_pairKey:
  "pairKey (app_state.fromLang (initialState onLine storage))
           (app_state.toLang (initialState onLine storage)) = ''fr-en''"
  by (simp add: initialState_def pairKey_def SUPPORTED_LANGUAGES_def)

text \<open>
  C1, as stated: every ordered pair of distinct supported languages has a dictionary entry.
  It fails: French and Spanish are two distinct supported languages and
  \<open>OFFLINE_DICTIONARY\<close> has no \<open>fr-es\<close> entry.
\<close>

theorem OFFLINE_DICTIONARY_no_fr_es:
  "SUPPORTED_LANGUAGES ! 0 \<in> set SUPPORTED_LANGUAGES
   \<and> SUPPORTED_LANGUAGES ! 2 \<in> set SUPPORTED_LANGUAGES
   \<and> SUPPORTED_LANGUAGES ! 0 \<noteq> SUPPORTED_LANGUAGES ! 2
   \<and> pairKey (SUPPORTED_LANGUAGES ! 0) (SUPPORTED_LANGUAGES ! 2) = ''fr-es''
   \<and> map_of OFFLINE_DICTIONARY (pairKey (SUPPORTED_LANGUAGES ! 0) (SUPPORTED_LANGUAGES ! 2)) = None"
  by (simp add: SUPPORTED_LANGUAGES_def OFFLINE_DICTIONARY_def pairKey_def)

text \<open>
  C1, amended: \<open>OFFLINE_DICTIONARY\<close> has exactly the two entries \<open>fr-en\<close> and
  \<open>en-fr\<close>; each maps exactly ten distinct phrases; and among the ordered pairs of the
  eleven supported languages, the pairs with an entry are exactly French to English and
  English to French.
\<close>

theorem OFFLINE_DICTIONARY_entries:
  "map fst OFFLINE_DICTIONARY = [''fr-en'', ''en-fr'']
   \<and> length SUPPORTED_LANGUAGES = 11
   \<and> (\<forall>(k, d) \<in> set OFFLINE_DICTIONARY. length d = 10 \<and> distinct (map fst d))
   \<and> (\<forall>a \<in> set SUPPORTED_LANGUAGES. \<forall>b \<in> set SUPPORTED_LANGUAGES.
        (map_of OFFLINE_DICTIONARY (pairKey a b) \<noteq> None)
          = ((code a, code b) \<in> {(''fr'', ''en''), (''en'', ''fr'')}))"
proof (intro conjI)
  show "map fst OFFLINE_DICTIONARY = [''fr-en'', ''en-fr'']"
    by (simp add: OFFLINE_DICTIONARY_def)
  show "length SUPPORTED_LANGUAGES = 11"
    by (simp add: SUPPORTED_LANGUAGES_def)
  show "\<forall>(k, d) \<in> set OFFLINE_DICTIONARY. length d = 10 \<and> distinct (map fst d)"
    by (simp add: OFFLINE_DICTIONARY_def)
  show "\<forall>a \<in> set SUPPORTED_LANGUAGES. \<forall>b \<in> set SUPPORTED_LANGUAGES.
        (map_of OFFLINE_DICTIONARY (pairKey a b) \<noteq> None)
          = ((code a, code b) \<in> {(''fr'', ''en''), (''en'', ''fr'')})"
    by (simp add: SUPPORTED_LANGUAGES_def OFFLINE_DICTIONARY_def pairKey_def)
qed

theorem OFFLINE_DICTIONARY_entries_witness:
  "SUPPORTED_LANGUAGES ! 0 \<in> set SUPPORTED_LANGUAGES
   \<and> SUPPORTED_LANGUAGES ! 1 \<in> set SUPPORTED_LANGUAGES
   \<and> SUPPORTED_LANGUAGES ! 3 \<in> set SUPPORTED_LANGUAGES
   \<and> map_of OFFLINE_DICTIONARY (pairKey (SUPPORTED_LANGUAGES ! 0) (SUPPORTED_LANGUAGES ! 1)) \<noteq> None
   \<and> map_of OFFLINE_DICTIONARY (pairKey (SUPPORTED_LANGUAGES ! 3) (SUPPORTED_LANGUAGES ! 1)) = None
   \<and> OFFLINE_DICTIONARY ! 0 \<in> set OFFLINE_DICTIONARY
   \<and> length (snd (OFFLINE_DICTIONARY ! 0)) = 10"
proof -
  have m0: "SUPPORTED_LANGUAGES ! 0 \<in> set SUPPORTED_LANGUAGES"
    by (simp add: SUPPORTED_LANGUAGES_def)
  have m1: "SUPPORTED_LANGUAGES ! 1 \<in> set SUPPORTED_LANGUAGES"
    by (simp add: SUPPORTED_LANGUAGES_def)
  have m3: "SUPPORTED_LANGUAGES ! 3 \<in> set SUPPORTED_LANGUAGES"
    by (simp add: SUPPORTED_LANGUAGES_def)
  have c01: "(code (SUPPORTED_LANGUAGES ! 0), code (SUPPORTED_LANGUAGES ! 1))
               \<in> {(''fr'', ''en''), (''en'', ''fr'')}"
    by (simp add: SUPPORTED_LANGUAGES_def)
  have c31: "(code (SUPPORTED_LANGUAGES ! 3), code (SUPPORTED_LANGUAGES ! 1))
               \<notin> {(''fr'', ''en''), (''en'', ''fr'')}"
    by (simp add: SUPPORTED_LANGUAGES_def)
  from OFFLINE_DICTIONARY_entries
  have pairs: "\<forall>a \<in> set SUPPORTED_LANGUAGES. \<forall>b \<in> set SUPPORTED_LANGUAGES.
        (map_of OFFLINE_DICTIONARY (pairKey a b) \<noteq> None)
          = ((code a, code b) \<in> {(''fr'', ''en''), (''en'', ''fr'')})"
    and sizes: "\<forall>(k, d) \<in> set OFFLINE_DICTIONARY. length d = 10 \<and> distinct (map fst d)"
    by blast+
  from pairs m0 m1 c01
  have yes: "map_of OFFLINE_DICTIONARY (pairKey (SUPPORTED_LANGUAGES ! 0) (SUPPORTED_LANGUAGES ! 1)) \<noteq> None"
    by blast
  from pairs m3 m1 c31
  have no: "map_of OFFLINE_DICTIONARY (pairKey (SUPPORTED_LANGUAGES ! 3) (SUPPORTED_LANGUAGES ! 1)) = None"
    by blast
  have d0: "OFFLINE_DICTIONARY ! 0 \<in> set OFFLINE_DICTIONARY"
    by (simp add: OFFLINE_DICTIONARY_def)
  with sizes have ten: "length (snd (OFFLINE_DICTIONARY ! 0)) = 10"
    by (auto simp: case_prod_beta)
  from m0 m1 m3 yes no d0 ten show ?thesis by blast
qed

lemma dictionaryLookup_JUndefined_iff:
  "(dictionaryLookup pair k = JUndefined) =
     (case map_of OFFLINE_DICTIONARY pair of
        None \<Rightarrow> True
      | Some d \<Rightarrow> map_of d k = None \<and> k \<notin> set Object_prototype_keys)"
  by (simp add: dictionaryLookup_def getProperty_def split: option.splits)

text \<open>
  When the lookup finds nothing, neither an own key nor an inherited member, the
  translation shown and recorded is the fallback.
\<close>

lemma handleOfflineTranslate_fallback:
  assumes "dictionaryLookup (pairKey (app_state.fromLang st) (app_state.toLang st))
             (trim P (toLowerCase P text)) = JUndefined"
  shows "model (currentTranscription (handleOfflineTranslate P t_id t_ts text st))
           = JString (fallbackText text)"
    and "translatedText (hd (history (handleOfflineTranslate P t_id t_ts text st)))
           = JString (fallbackText text)"
  using assms
  by (simp_all add: handleOfflineTranslate_transcription handleOfflineTranslate_history
        offlineTranslation_miss)

text \<open>
  C2: a text whose normalised form is not a key of the pair's dictionary gets the fallback
  string. The code breaks this at the text \<open>constructor\<close>, English to French: the pair
  has a dictionary, \<open>constructor\<close> is not one of its keys, and yet the lookup returns the
  member every object inherits under that name. That value is truthy, so the fallback is
  skipped, and it is what the transcription shows and what the history record stores.
\<close>

theorem handleOfflineTranslate_constructor:
  "pairKey (app_state.fromLang en_fr_state) (app_state.toLang en_fr_state) = ''en-fr''
   \<and> trim ascii_platform (toLowerCase ascii_platform ''constructor'') = ''constructor''
   \<and> map_option (\<lambda>d. map_of d ''constructor'') (map_of OFFLINE_DICTIONARY ''en-fr'') = Some None
   \<and> model (currentTranscription
        (handleOfflineTranslate ascii_platform 7 7 ''constructor'' en_fr_state))
       = JInherited ''constructor''
   \<and> translatedText (hd (history
        (handleOfflineTranslate ascii_platform 7 7 ''constructor'' en_fr_state)))
       = JInherited ''constructor''
   \<and> JInherited ''constructor'' \<noteq> JString (fallbackText ''constructor'')"
proof -
  have n: "trim ascii_platform (toLowerCase ascii_platform ''constructor'') = ''constructor''"
    by (simp add: ascii_normalise)
  have k: "pairKey (app_state.fromLang en_fr_state) (app_state.toLang en_fr_state) = ''en-fr''"
    unfolding en_fr_state_def by (simp add: pairKey_def SUPPORTED_LANGUAGES_def)
  have l: "dictionaryLookup ''en-fr'' ''constructor'' = JInherited ''constructor''"
    by (simp add: dictionaryLookup_def OFFLINE_DICTIONARY_def getProperty_def
          Object_prototype_keys_def)
  have t: "offlineTranslation ascii_platform (app_state.fromLang en_fr_state)
             (app_state.toLang en_fr_state) ''constructor'' = JInherited ''constructor''"
    using k by (simp add: offlineTranslation_def Let_def n l)
  have o: "map_option (\<lambda>d. map_of d ''constructor'') (map_of OFFLINE_DICTIONARY ''en-fr'')
             = Some None"
    by (simp add: OFFLINE_DICTIONARY_def)
  show ?thesis
    by (simp add: handleOfflineTranslate_transcription handleOfflineTranslate_history t n k o)
qed

text \<open>
  C8: the two dictionaries are inverse to each other: \<open>fr-en\<close> maps the phrase \<open>p\<close> to
  \<open>q\<close> exactly when \<open>en-fr\<close> maps \<open>q\<close> to \<open>p\<close>. Hence a known phrase that
  normalisation leaves alone, translated from French to English and back, comes back as
  itself.
\<close>

theorem OFFLINE_DICTIONARY_inverse:
  "(\<forall>p q. (dictionaryLookup ''fr-en'' p = JString q) = (dictionaryLookup ''en-fr'' q = JString p))
   \<and> (\<forall>P p q. dictionaryLookup ''fr-en'' p = JString q
         \<and> trim P (toLowerCase P p) = p \<and> trim P (toLowerCase P q) = q
       \<longrightarrow> offlineTranslation P (SUPPORTED_LANGUAGES ! 0) (SUPPORTED_LANGUAGES ! 1) p = JString q
         \<and> offlineTranslation P (SUPPORTED_LANGUAGES ! 1) (SUPPORTED_LANGUAGES ! 0) q = JString p)"
proof (intro conjI allI impI)
  fix p q
  show "(dictionaryLookup ''fr-en'' p = JString q) = (dictionaryLookup ''en-fr'' q = JString p)"
    by (rule dictionaryLookup_fr_en_iff)
next
  fix P :: platform and p q
  assume h: "dictionaryLookup ''fr-en'' p = JString q
         \<and> trim P (toLowerCase P p) = p \<and> trim P (toLowerCase P q) = q"
  then have inv: "dictionaryLookup ''en-fr'' q = JString p"
    by (simp add: dictionaryLookup_fr_en_iff)
  from h have "dictionaryLookup (pairKey (SUPPORTED_LANGUAGES ! 0) (SUPPORTED_LANGUAGES ! 1))
                 (trim P (toLowerCase P p)) = JString q"
    unfolding pairKey_fr_en by simp
  then show "offlineTranslation P (SUPPORTED_LANGUAGES ! 0) (SUPPORTED_LANGUAGES ! 1) p = JString q"
    by (rule offlineTranslation_hit)
  from h inv have "dictionaryLookup (pairKey (SUPPORTED_LANGUAGES ! 1) (SUPPORTED_LANGUAGES ! 0))
                 (trim P (toLowerCase P q)) = JString p"
    unfolding pairKey_en_fr by simp
  then show "offlineTranslation P (SUPPORTED_LANGUAGES ! 1) (SUPPORTED_LANGUAGES ! 0) q = JString p"
    by (rule offlineTranslation_hit)
qed

theorem OFFLINE_DICTIONARY_inverse_witness:
  "dictionaryLookup ''fr-en'' ''bonjour'' = JString ''hello''
   \<and> dictionaryLookup ''en-fr'' ''hello'' = JString ''bonjour''
   \<and> trim ascii_platform (toLowerCase ascii_platform ''bonjour'') = ''bonjour''
   \<and> trim ascii_platform (toLowerCase ascii_platform ''hello'') = ''hello''
   \<and> offlineTranslation ascii_platform (SUPPORTED_LANGUAGES ! 0) (SUPPORTED_LANGUAGES ! 1)
        ''bonjour'' = JString ''hello''
   \<and> offlineTranslation ascii_platform (SUPPORTED_LANGUAGES ! 1) (SUPPORTED_LANGUAGES ! 0)
        ''hello'' = JString ''bonjour''"
proof -
  have a: "dictionaryLookup ''fr-en'' ''bonjour'' = JString ''hello''"
    by (simp add: dictionaryLookup_def OFFLINE_DICTIONARY_def getProperty_def)
  have b: "trim ascii_platform (toLowerCase ascii_platform ''bonjour'') = ''bonjour''"
    by (simp add: ascii_normalise)
  have c: "trim ascii_platform (toLowerCase ascii_platform ''hello'') = ''hello''"
    by (simp add: ascii_normalise)
  from OFFLINE_DICTIONARY_inverse a b c show ?thesis by blast
qed

text \<open>
  C9, as stated: \<open>handleOfflineTranslate\<close> produces the same translated string for a text
  and for its lower-cased, trimmed form. It fails on a miss: from French to English,
  \<open>Foo\<close> and its normal form \<open>foo\<close> get different strings, because the fallback quotes
  the text as given.
\<close>

theorem handleOfflineTranslate_Foo_foo:
  "trim ascii_platform (toLowerCase ascii_platform ''Foo'') = ''foo''
   \<and> model (currentTranscription
        (handleOfflineTranslate ascii_platform 7 7 ''Foo'' (initialState False Map.empty)))
     \<noteq> model (currentTranscription
        (handleOfflineTranslate ascii_platform 7 7
           (trim ascii_platform (toLowerCase ascii_platform ''Foo''))
           (initialState False Map.empty)))"
proof -
  have n: "trim ascii_platform (toLowerCase ascii_platform ''Foo'') = ''foo''"
    "trim ascii_platform (toLowerCase ascii_platform ''foo'') = ''foo''"
    by (simp_all add: ascii_normalise)
  have b: "dictionaryLookup ''fr-en'' ''foo'' = JUndefined"
    by (simp add: dictionaryLookup_def OFFLINE_DICTIONARY_def getProperty_def
          Object_prototype_keys_def)
  show ?thesis
    by (simp add: handleOfflineTranslate_transcription offlineTranslation_def
          initialState_pairKey n b fallbackText_def)
qed

text \<open>
  C9, amended: the lookup uses the lower-cased, trimmed text. When that normal form is a key
  of the current pair's dictionary and normalising it again changes nothing, the text and
  its normal form get the same translated string, the dictionary's value. When the lookup
  finds nothing, the translated string is the fallback, which quotes the text as given, so
  that the text and its normal form get the same string only if they are equal. In
  every case the text as given is what the transcription shows as the user's and what the
  new history record stores as \<open>originalText\<close>, and the record's \<open>translatedText\<close> is
  the translation shown.
\<close>

theorem handleOfflineTranslate_normalised:
  "(\<forall>v. dictionaryLookup (pairKey (app_state.fromLang st) (app_state.toLang st))
            (trim P (toLowerCase P text)) = JString v
        \<and> trim P (toLowerCase P (trim P (toLowerCase P text))) = trim P (toLowerCase P text)
      \<longrightarrow> model (currentTranscription (handleOfflineTranslate P t_id t_ts text st)) = JString v
        \<and> model (currentTranscription
             (handleOfflineTranslate P t_id t_ts (trim P (toLowerCase P text)) st)) = JString v)
   \<and> (dictionaryLookup (pairKey (app_state.fromLang st) (app_state.toLang st))
          (trim P (toLowerCase P text)) = JUndefined
      \<longrightarrow> model (currentTranscription (handleOfflineTranslate P t_id t_ts text st))
            = JString (fallbackText text))
   \<and> (dictionaryLookup (pairKey (app_state.fromLang st) (app_state.toLang st))
          (trim P (toLowerCase P text)) = JUndefined
        \<and> trim P (toLowerCase P (trim P (toLowerCase P text))) = trim P (toLowerCase P text)
      \<longrightarrow> (model (currentTranscription (handleOfflineTranslate P t_id t_ts text st))
             = model (currentTranscription
                 (handleOfflineTranslate P t_id t_ts (trim P (toLowerCase P text)) st)))
          = (text = trim P (toLowerCase P text)))
   \<and> user (currentTranscription (handleOfflineTranslate P t_id t_ts text st)) = text
   \<and> originalText (hd (history (handleOfflineTranslate P t_id t_ts text st))) = text
   \<and> translatedText (hd (history (handleOfflineTranslate P t_id t_ts text st)))
       = model (currentTranscription (handleOfflineTranslate P t_id t_ts text st))"
  by (auto simp: handleOfflineTranslate_transcription handleOfflineTranslate_history
        offlineTranslation_hit offlineTranslation_miss fallbackText_def)

theorem handleOfflineTranslate_normalised_witness:
  "dictionaryLookup (pairKey (app_state.fromLang (initialState False Map.empty))
        (app_state.toLang (initialState False Map.empty)))
      (trim ascii_platform (toLowerCase ascii_platform '' Bonjour '')) = JString ''hello''
   \<and> trim ascii_platform (toLowerCase ascii_platform
        (trim ascii_platform (toLowerCase ascii_platform '' Bonjour '')))
       = trim ascii_platform (toLowerCase ascii_platform '' Bonjour '')
   \<and> model (currentTranscription
        (handleOfflineTranslate ascii_platform 7 7 '' Bonjour '' (initialState False Map.empty)))
       = JString ''hello''
   \<and> model (currentTranscription
        (handleOfflineTranslate ascii_platform 7 7 ''bonjour'' (initialState False Map.empty)))
       = JString ''hello''
   \<and> dictionaryLookup (pairKey (app_state.fromLang (initialState False Map.empty))
        (app_state.toLang (initialState False Map.empty)))
      (trim ascii_platform (toLowerCase ascii_platform ''Foo'')) = JUndefined
   \<and> model (currentTranscription
        (handleOfflineTranslate ascii_platform 7 7 ''Foo'' (initialState False Map.empty)))
       = JString (fallbackText ''Foo'')"
proof -
  have n1: "trim ascii_platform (toLowerCase ascii_platform '' Bonjour '') = ''bonjour''"
    by (simp add: ascii_normalise)
  have n2: "trim ascii_platform (toLowerCase ascii_platform ''bonjour'') = ''bonjour''"
    by (simp add: ascii_normalise)
  have n3: "trim ascii_platform (toLowerCase ascii_platform ''Foo'') = ''foo''"
    by (simp add: ascii_normalise)
  have a: "dictionaryLookup ''fr-en'' ''bonjour'' = JString ''hello''"
    by (simp add: dictionaryLookup_def OFFLINE_DICTIONARY_def getProperty_def)
  have b: "dictionaryLookup ''fr-en'' ''foo'' = JUndefined"
    by (simp add: dictionaryLookup_def OFFLINE_DICTIONARY_def getProperty_def
          Object_prototype_keys_def)
  show ?thesis
    using handleOfflineTranslate_normalised
            [of "initialState False Map.empty" ascii_platform "'' Bonjour ''" 7 7]
          handleOfflineTranslate_normalised
            [of "initialState False Map.empty" ascii_platform "''Foo''" 7 7]
    by (simp add: n1 n2 n3 initialState_pairKey a b)
qed

section \<open>Properties of language selection\<close>

lemma distinct_SUPPORTED_LANGUAGES: "distinct SUPPORTED_LANGUAGES"
  by (simp add: SUPPORTED_LANGUAGES_def)

lemma length_SUPPORTED_LANGUAGES: "length SUPPORTED_LANGUAGES = 11"
  by (simp add: SUPPORTED_LANGUAGES_def)

lemma indexOf_nth: "distinct xs \<Longrightarrow> i < length xs \<Longrightarrow> indexOf xs (xs ! i) = int i"
proof (induction xs arbitrary: i)
  case Nil
  then show ?case by simp
next
  case (Cons y ys)
  show ?case
  proof (cases i)
    case 0
    then show ?thesis by simp
  next
    case (Suc j)
    with Cons.prems have j: "j < length ys" and d: "distinct ys" and ny: "y \<notin> set ys"
      by auto
    from j ny have "ys ! j \<noteq> y" by (metis nth_mem)
    with Cons.IH [OF d j] Suc show ?thesis by (simp add: Let_def)
  qed
qed

lemma nextLanguage_nth:
  assumes "i < length SUPPORTED_LANGUAGES"
  shows "nextLanguage (SUPPORTED_LANGUAGES ! i)
           = SUPPORTED_LANGUAGES ! ((i + 1) mod length SUPPORTED_LANGUAGES)"
proof -
  have "indexOf SUPPORTED_LANGUAGES (SUPPORTED_LANGUAGES ! i) = int i"
    using assms by (simp add: indexOf_nth distinct_SUPPORTED_LANGUAGES)
  moreover have "nat ((int i + 1) mod int (length SUPPORTED_LANGUAGES))
                   = (i + 1) mod length SUPPORTED_LANGUAGES"
    by (metis nat_int of_nat_1 of_nat_add zmod_int)
  ultimately show ?thesis by (simp add: nextLanguage_def)
qed

lemma nextLanguage_funpow:
  assumes "i < length SUPPORTED_LANGUAGES"
  shows "(nextLanguage ^^ k) (SUPPORTED_LANGUAGES ! i)
           = SUPPORTED_LANGUAGES ! ((i + k) mod length SUPPORTED_LANGUAGES)"
proof (induction k)
  case 0
  with assms show ?case by simp
next
  case (Suc k)
  have "(i + k) mod length SUPPORTED_LANGUAGES < length SUPPORTED_LANGUAGES"
    by (simp add: length_SUPPORTED_LANGUAGES)
  then show ?case
    by (simp add: Suc nextLanguage_nth mod_Suc_eq)
qed

lemma nextLanguage_cycle:
  assumes "l \<in> set SUPPORTED_LANGUAGES"
  shows "(nextLanguage ^^ length SUPPORTED_LANGUAGES) l = l"
proof -
  from assms obtain i where i: "i < length SUPPORTED_LANGUAGES" and l: "l = SUPPORTED_LANGUAGES ! i"
    by (auto simp: in_set_conv_nth)
  show ?thesis unfolding l by (simp add: nextLanguage_funpow [OF i] i)
qed

lemma onClickFromLang_funpow:
  "\<not> isListening st \<Longrightarrow>
   (onClickFromLang ^^ k) st = st\<lparr>fromLang := (nextLanguage ^^ k) (app_state.fromLang st)\<rparr>"
  by (induction k) (simp_all add: onClickFromLang_def)

lemma onClickToLang_funpow:
  "\<not> isListening st \<Longrightarrow>
   (onClickToLang ^^ k) st = st\<lparr>toLang := (nextLanguage ^^ k) (app_state.toLang st)\<rparr>"
  by (induction k) (simp_all add: onClickToLang_def)

text \<open>
  C5: while not listening, a tap on a selector button moves that selection, and nothing
  else, to the element of \<open>SUPPORTED_LANGUAGES\<close> at the next index modulo the length of
  the array; after as many taps as the array has elements, a selection taken from the array
  is back where it started; while listening, a tap changes nothing.
\<close>

theorem language_selection_cycles:
  "(\<not> isListening st \<longrightarrow>
       onClickFromLang st = st\<lparr>fromLang := SUPPORTED_LANGUAGES !
          nat ((indexOf SUPPORTED_LANGUAGES (app_state.fromLang st) + 1)
                 mod int (length SUPPORTED_LANGUAGES))\<rparr>
     \<and> onClickToLang st = st\<lparr>toLang := SUPPORTED_LANGUAGES !
          nat ((indexOf SUPPORTED_LANGUAGES (app_state.toLang st) + 1)
                 mod int (length SUPPORTED_LANGUAGES))\<rparr>)
   \<and> (\<forall>i < length SUPPORTED_LANGUAGES. \<not> isListening st \<longrightarrow>
       (app_state.fromLang st = SUPPORTED_LANGUAGES ! i \<longrightarrow>
          app_state.fromLang (onClickFromLang st)
            = SUPPORTED_LANGUAGES ! ((i + 1) mod length SUPPORTED_LANGUAGES))
     \<and> (app_state.toLang st = SUPPORTED_LANGUAGES ! i \<longrightarrow>
          app_state.toLang (onClickToLang st)
            = SUPPORTED_LANGUAGES ! ((i + 1) mod length SUPPORTED_LANGUAGES)))
   \<and> (\<not> isListening st \<and> app_state.fromLang st \<in> set SUPPORTED_LANGUAGES \<longrightarrow>
       (onClickFromLang ^^ length SUPPORTED_LANGUAGES) st = st)
   \<and> (\<not> isListening st \<and> app_state.toLang st \<in> set SUPPORTED_LANGUAGES \<longrightarrow>
       (onClickToLang ^^ length SUPPORTED_LANGUAGES) st = st)
   \<and> (isListening st \<longrightarrow> onClickFromLang st = st \<and> onClickToLang st = st)"
proof (intro conjI impI allI)
  assume "\<not> isListening st"
  then show "onClickFromLang st = st\<lparr>fromLang := SUPPORTED_LANGUAGES !
          nat ((indexOf SUPPORTED_LANGUAGES (app_state.fromLang st) + 1)
                 mod int (length SUPPORTED_LANGUAGES))\<rparr>"
    by (simp add: onClickFromLang_def nextLanguage_def)
next
  assume "\<not> isListening st"
  then show "onClickToLang st = st\<lparr>toLang := SUPPORTED_LANGUAGES !
          nat ((indexOf SUPPORTED_LANGUAGES (app_state.toLang st) + 1)
                 mod int (length SUPPORTED_LANGUAGES))\<rparr>"
    by (simp add: onClickToLang_def nextLanguage_def)
next
  fix i
  assume "i < length SUPPORTED_LANGUAGES" "\<not> isListening st"
    "app_state.fromLang st = SUPPORTED_LANGUAGES ! i"
  then show "app_state.fromLang (onClickFromLang st)
            = SUPPORTED_LANGUAGES ! ((i + 1) mod length SUPPORTED_LANGUAGES)"
    by (simp add: onClickFromLang_def nextLanguage_nth)
next
  fix i
  assume "i < length SUPPORTED_LANGUAGES" "\<not> isListening st"
    "app_state.toLang st = SUPPORTED_LANGUAGES ! i"
  then show "app_state.toLang (onClickToLang st)
            = SUPPORTED_LANGUAGES ! ((i + 1) mod length SUPPORTED_LANGUAGES)"
    by (simp add: onClickToLang_def nextLanguage_nth)
next
  assume "\<not> isListening st \<and> app_state.fromLang st \<in> set SUPPORTED_LANGUAGES"
  then show "(onClickFromLang ^^ length SUPPORTED_LANGUAGES) st = st"
    by (simp add: onClickFromLang_funpow nextLanguage_cycle)
next
  assume "\<not> isListening st \<and> app_state.toLang st \<in> set SUPPORTED_LANGUAGES"
  then show "(onClickToLang ^^ length SUPPORTED_LANGUAGES) st = st"
    by (simp add: onClickToLang_funpow nextLanguage_cycle)
next
  assume "isListening st"
  then show "onClickFromLang st = st" by (simp add: onClickFromLang_def)
next
  assume "isListening st"
  then show "onClickToLang st = st" by (simp add: onClickToLang_def)
qed

theorem language_selection_cycles_witness:
  "\<not> isListening (initialState True Map.empty)
   \<and> app_state.fromLang (initialState True Map.empty) = SUPPORTED_LANGUAGES ! 0
   \<and> app_state.toLang (initialState True Map.empty) = SUPPORTED_LANGUAGES ! 1
   \<and> app_state.fromLang (onClickFromLang (initialState True Map.empty)) = SUPPORTED_LANGUAGES ! 1
   \<and> app_state.toLang (onClickToLang (initialState True Map.empty)) = SUPPORTED_LANGUAGES ! 2
   \<and> (onClickFromLang ^^ length SUPPORTED_LANGUAGES) (initialState True Map.empty)
       = initialState True Map.empty
   \<and> (onClickToLang ^^ length SUPPORTED_LANGUAGES) (initialState True Map.empty)
       = initialState True Map.empty
   \<and> isListening ((initialState True Map.empty)\<lparr>isListening := True\<rparr>)
   \<and> onClickFromLang ((initialState True Map.empty)\<lparr>isListening := True\<rparr>)
       = (initialState True Map.empty)\<lparr>isListening := True\<rparr>"
proof -
  let ?s = "initialState True Map.empty"
  have l: "\<not> isListening ?s" by (simp add: initialState_def)
  have f: "app_state.fromLang ?s = SUPPORTED_LANGUAGES ! 0"
    unfolding initialState_def by simp
  have t: "app_state.toLang ?s = SUPPORTED_LANGUAGES ! 1"
    unfolding initialState_def by simp
  have n: "(0::nat) < length SUPPORTED_LANGUAGES" "(1::nat) < length SUPPORTED_LANGUAGES"
    by (simp_all add: length_SUPPORTED_LANGUAGES)
  have a: "((0::nat) + 1) mod length SUPPORTED_LANGUAGES = 1"
    "((1::nat) + 1) mod length SUPPORTED_LANGUAGES = 2"
    by (simp_all add: length_SUPPORTED_LANGUAGES)
  have mf: "app_state.fromLang ?s \<in> set SUPPORTED_LANGUAGES"
    unfolding f using n(1) by (rule nth_mem)
  have mt: "app_state.toLang ?s \<in> set SUPPORTED_LANGUAGES"
    unfolding t using n(2) by (rule nth_mem)
  have l': "isListening (?s\<lparr>isListening := True\<rparr>)" by simp
  note A = language_selection_cycles [of ?s]
  note B = language_selection_cycles [of "?s\<lparr>isListening := True\<rparr>"]
  from A n(1) l f have 1: "app_state.fromLang (onClickFromLang ?s)
      = SUPPORTED_LANGUAGES ! ((0 + 1) mod length SUPPORTED_LANGUAGES)" by blast
  from A n(2) l t have 2: "app_state.toLang (onClickToLang ?s)
      = SUPPORTED_LANGUAGES ! ((1 + 1) mod length SUPPORTED_LANGUAGES)" by blast
  from A l mf have 3: "(onClickFromLang ^^ length SUPPORTED_LANGUAGES) ?s = ?s" by blast
  from A l mt have 4: "(onClickToLang ^^ length SUPPORTED_LANGUAGES) ?s = ?s" by blast
  from B l' have 5: "onClickFromLang (?s\<lparr>isListening := True\<rparr>) = ?s\<lparr>isListening := True\<rparr>"
    by blast
  from l f t 1 [unfolded a] 2 [unfolded a] 3 4 l' 5 show ?thesis by blast
qed

section \<open>Properties of sessions and playback\<close>

lemma startOfflineListening_effects:
  "effects (startOfflineListening P st) = effects st @
     [if speechRecognitionAvailable P then RecognitionStart (code (app_state.fromLang st))
      else Alert (''Reconnaissance vocale non support'' @ [CHR 0xC3, CHR 0xA9]
                        @ ''e sur cet appareil en mode hors ligne.'')]"
  by (simp add: startOfflineListening_def emit_def)

lemma startOfflineListening_refs:
  "sessionRef (startOfflineListening P st) = sessionRef st
   \<and> mediaStreamRef (startOfflineListening P st) = mediaStreamRef st
   \<and> inputAudioCtxRef (startOfflineListening P st) = inputAudioCtxRef st
   \<and> outputAudioCtxRef (startOfflineListening P st) = outputAudioCtxRef st"
  by (simp add: startOfflineListening_def emit_def)

text \<open>
  C4: when the browser is offline or manual offline mode is on, \<open>startSession\<close> is
  \<open>startOfflineListening\<close> and nothing more: its only call into the platform is the start
  of speech recognition (or the alert that there is none); it creates no \<open>GoogleGenAI\<close>
  client and no audio context, requests no microphone stream, opens no live session, and
  leaves the session, stream and audio-context references as they were.
\<close>

theorem startSession_offline:
  assumes "\<not> isOnline st \<or> manualOffline st"
  shows "isActuallyOffline st
    \<and> startSession P st = startOfflineListening P st
    \<and> effects (startSession P st) = effects st @
         [if speechRecognitionAvailable P then RecognitionStart (code (app_state.fromLang st))
          else Alert (''Reconnaissance vocale non support'' @ [CHR 0xC3, CHR 0xA9]
                        @ ''e sur cet appareil en mode hors ligne.'')]
    \<and> set (drop (length (effects st)) (effects (startSession P st)))
           \<inter> ({NewGoogleGenAI, GetUserMedia} \<union> range LiveConnect \<union> range NewAudioContext) = {}
    \<and> sessionRef (startSession P st) = sessionRef st
    \<and> mediaStreamRef (startSession P st) = mediaStreamRef st
    \<and> inputAudioCtxRef (startSession P st) = inputAudioCtxRef st
    \<and> outputAudioCtxRef (startSession P st) = outputAudioCtxRef st"
proof -
  from assms have off: "isActuallyOffline st" by (simp add: isActuallyOffline_def)
  then have eq: "startSession P st = startOfflineListening P st"
    by (simp add: startSession_def)
  have "set (drop (length (effects st)) (effects (startSession P st)))
           \<inter> ({NewGoogleGenAI, GetUserMedia} \<union> range LiveConnect \<union> range NewAudioContext) = {}"
    unfolding eq startOfflineListening_effects by auto
  with off eq show ?thesis
    by (simp add: startOfflineListening_refs startOfflineListening_effects)
qed

theorem startSession_offline_witness:
  "\<not> isOnline (initialState False Map.empty)
   \<and> startSession ascii_platform (initialState False Map.empty)
       = startOfflineListening ascii_platform (initialState False Map.empty)
   \<and> effects (startSession ascii_platform (initialState False Map.empty))
       = [RecognitionStart ''fr'']
   \<and> \<not> sessionRef (startSession ascii_platform (initialState False Map.empty))
   \<and> \<not> mediaStreamRef (startSession ascii_platform (initialState False Map.empty))"
proof -
  let ?s = "initialState False Map.empty"
  have a: "\<not> isOnline ?s" by (simp add: initialState_def)
  then have h: "\<not> isOnline ?s \<or> manualOffline ?s" by simp
  have e: "effects ?s = []" "\<not> sessionRef ?s" "\<not> mediaStreamRef ?s"
    "code (app_state.fromLang ?s) = ''fr''"
    by (simp_all add: initialState_def SUPPORTED_LANGUAGES_def)
  have p: "speechRecognitionAvailable ascii_platform" by (simp add: ascii_platform_def)
  note T = startSession_offline [OF h, of ascii_platform]
  from T have 1: "startSession ascii_platform ?s = startOfflineListening ascii_platform ?s"
    by blast
  from T have "effects (startSession ascii_platform ?s) = effects ?s @
         [if speechRecognitionAvailable ascii_platform
          then RecognitionStart (code (app_state.fromLang ?s))
          else Alert (''Reconnaissance vocale non support'' @ [CHR 0xC3, CHR 0xA9]
                        @ ''e sur cet appareil en mode hors ligne.'')]"
    by blast
  with e p have 2: "effects (startSession ascii_platform ?s) = [RecognitionStart ''fr'']"
    by simp
  from T have "sessionRef (startSession ascii_platform ?s) = sessionRef ?s"
    "mediaStreamRef (startSession ascii_platform ?s) = mediaStreamRef ?s"
    by blast+
  with e have 3: "\<not> sessionRef (startSession ascii_platform ?s)"
    "\<not> mediaStreamRef (startSession ascii_platform ?s)"
    by simp_all
  from a 1 2 3 show ?thesis by blast
qed

lemma foldl_emit_SourceStop:
  "foldl (\<lambda>s src. emit (SourceStop src) s) st xs = st\<lparr>effects := effects st @ map SourceStop xs\<rparr>"
  by (induction xs arbitrary: st) (simp_all add: emit_def)

lemma stopAllAudio_eq:
  "stopAllAudio st =
     st\<lparr>effects := effects st @ map SourceStop (sourcesRef st),
        sourcesRef := [], nextStartTimeRef := 0\<rparr>"
  by (simp add: stopAllAudio_def foldl_emit_SourceStop)






















section \<open>Properties of persistence\<close>

lemma expect_append: "expect lit (lit @ rest) = Inr rest"
  by (simp add: expect_def)

lemma unescape_entry:
  "\<forall>(c, e) \<in> set escapes. \<forall>tail. parseChars (e @ tail) = consTo c (parseChars tail)"
  by (simp add: escapes_def hexCode_def hexVal_def simpleEscapes_def controlChars_def)

lemma escapes_None:
  "map_of escapes c = None \<Longrightarrow> c \<noteq> CHR 0x22 \<and> c \<noteq> CHR 0x5C \<and> c \<notin> set controlChars"
  by (simp add: escapes_def controlChars_def split: if_splits)

lemma parseChars_escapeChar:
  "parseChars (escapeChar c @ tail) = consTo c (parseChars tail)"
proof (cases "map_of escapes c")
  case None
  with escapes_None [OF None] show ?thesis by (simp add: escapeChar_def)
next
  case (Some e)
  then have "(c, e) \<in> set escapes" by (rule map_of_SomeD)
  with unescape_entry have "parseChars (e @ tail) = consTo c (parseChars tail)" by blast
  with Some show ?thesis by (simp add: escapeChar_def)
qed

lemma parseChars_print:
  "parseChars (concat (map escapeChar s) @ CHR 0x22 # rest) = Inr (s, rest)"
  by (induction s) (simp_all add: parseChars_escapeChar consTo_def)

lemma parseString_print: "parseString (printString s @ rest) = Inr (s, rest)"
  by (simp add: parseString_def printString_def parseChars_print)

lemma digit_table:
  "\<forall>d \<in> set [0, 1, 2, 3, 4, 5, 6, 7, 8, 9 :: nat].
     isDigit (''0123456789'' ! d) \<and> digitVal (''0123456789'' ! d) = d
     \<and> (''0123456789'' ! d = CHR ''0'' \<longrightarrow> d = 0)"
  by (simp add: isDigit_def digitVal_def)

lemma digit_facts:
  assumes "d < 10"
  shows "isDigit (''0123456789'' ! d)" and "digitVal (''0123456789'' ! d) = d"
    and "''0123456789'' ! d = CHR ''0'' \<Longrightarrow> d = 0"
proof -
  from assms have "d \<in> set [0, 1, 2, 3, 4, 5, 6, 7, 8, 9 :: nat]" by auto
  with digit_table show "isDigit (''0123456789'' ! d)" "digitVal (''0123456789'' ! d) = d"
    "''0123456789'' ! d = CHR ''0'' \<Longrightarrow> d = 0"
    by blast+
qed

lemma Number_toString_nonempty: "Number_toString n \<noteq> []"
  by (subst Number_toString.simps) simp

lemma Number_toString_digits: "c \<in> set (Number_toString n) \<Longrightarrow> isDigit c"
proof (induction n rule: Number_toString.induct)
  case (1 n)
  show ?case
  proof (cases "n < 10")
    case True
    with "1.prems" show ?thesis
      by (subst (asm) Number_toString.simps) (simp add: digit_facts)
  next
    case False
    have "n mod 10 < 10" by simp
    with False "1.prems" "1.IH" show ?thesis
      by (subst (asm) Number_toString.simps) (auto simp: digit_facts)
  qed
qed

lemma Number_toString_value:
  "foldl (\<lambda>n d. 10 * n + digitVal d) 0 (Number_toString n) = n"
proof (induction n rule: Number_toString.induct)
  case (1 n)
  show ?case
  proof (cases "n < 10")
    case True
    then show ?thesis
      by (subst Number_toString.simps) (simp add: digit_facts)
  next
    case False
    have "n mod 10 < 10" by simp
    with False "1.IH" show ?thesis
      by (subst Number_toString.simps) (simp add: digit_facts)
  qed
qed

lemma Number_toString_no_leading_zero:
  "hd (Number_toString n) = CHR ''0'' \<Longrightarrow> length (Number_toString n) \<le> 1"
proof (induction n rule: Number_toString.induct)
  case (1 n)
  show ?case
  proof (cases "n < 10")
    case True
    then show ?thesis by (subst Number_toString.simps) simp
  next
    case False
    then have eq: "Number_toString n
                     = Number_toString (n div 10) @ [''0123456789'' ! (n mod 10)]"
      by (subst Number_toString.simps) simp
    with "1.prems" have h: "hd (Number_toString (n div 10)) = CHR ''0''"
      by (simp add: Number_toString_nonempty)
    with "1.IH" [OF False] have len: "length (Number_toString (n div 10)) \<le> 1" by simp
    from False have pos: "0 < n div 10" by simp
    show ?thesis
    proof (cases "n div 10 < 10")
      case True
      then have "Number_toString (n div 10) = [''0123456789'' ! (n div 10)]"
        by (subst Number_toString.simps) simp
      with h True have "n div 10 = 0" by (simp add: digit_facts)
      with pos show ?thesis by simp
    next
      case nd: False
      then have "Number_toString (n div 10)
                   = Number_toString (n div 10 div 10) @ [''0123456789'' ! (n div 10 mod 10)]"
        by (subst Number_toString.simps) simp
      with len Number_toString_nonempty [of "n div 10 div 10"] show ?thesis
        by (cases "Number_toString (n div 10 div 10)") simp_all
    qed
  qed
qed

lemma parseNumber_print:
  assumes "\<not> isDigit c"
  shows "parseNumber (Number_toString n @ c # rest) = Inr (n, c # rest)"
proof -
  have t: "takeWhile isDigit (Number_toString n @ c # rest) = Number_toString n"
    using assms by (simp add: takeWhile_append2 Number_toString_digits)
  have d: "dropWhile isDigit (Number_toString n @ c # rest) = c # rest"
    using assms by (simp add: dropWhile_append2 Number_toString_digits)
  have z: "\<not> (hd (Number_toString n) = CHR ''0'' \<and> 1 < length (Number_toString n))"
    using Number_toString_no_leading_zero [of n] by auto
  show ?thesis
    unfolding parseNumber_def Let_def t d
    using z by (simp add: Number_toString_nonempty Number_toString_value)
qed

lemma parseTranslated_print:
  "parseTranslated (printTranslated (JString s) @ rest) = Inr (JString s, rest)"
  by (simp add: parseTranslated_def printTranslated_def expect_append bind_def parseString_print)

lemma parseRecord_print:
  assumes "translatedText r = JString s"
  shows "parseRecord (printRecord r @ rest) = Inr (r, rest)"
proof -
  have b: "\<not> isDigit (CHR ''}'')" by (simp add: isDigit_def)
  have n: "parseNumber (Number_toString (timestamp r) @ CHR ''}'' # rest)
             = Inr (timestamp r, CHR ''}'' # rest)"
    using b by (rule parseNumber_print)
  have e: "expect ''}'' (CHR ''}'' # rest) = Inr rest"
    by (simp add: expect_def)
  have t: "parseTranslated (printTranslated (translatedText r) @ tail)
             = Inr (translatedText r, tail)" for tail
    unfolding assms by (rule parseTranslated_print)
  show ?thesis
    by (simp add: parseRecord_def printRecord_def expect_append parseString_print t n e bind_def)
qed

lemma memberId_nonempty: "memberId \<noteq> []"
  by (simp add: memberId_def)

lemma printRecord_nonempty: "printRecord r \<noteq> []"
  by (simp add: printRecord_def memberId_nonempty)

lemma wellTyped_JString: "wellTyped r \<Longrightarrow> \<exists>s. translatedText r = JString s"
  by (cases "translatedText r") (simp_all add: wellTyped_def)

lemma parseRecords_print:
  assumes "h \<noteq> []" and "list_all wellTyped h"
  shows "parseRecords (printRecords h @ CHR '']'' # rest) = Inr (h, rest)"
  using assms
proof (induction h rule: printRecords.induct)
  case 1
  then show ?case by simp
next
  case (2 r)
  then obtain s where "translatedText r = JString s"
    using wellTyped_JString by auto
  then have "parseRecord (printRecord r @ CHR '']'' # rest) = Inr (r, CHR '']'' # rest)"
    by (rule parseRecord_print)
  then show ?case
    by (subst parseRecords.simps) simp
next
  case (3 r r' rs)
  then obtain s where "translatedText r = JString s"
    using wellTyped_JString by auto
  then have "parseRecord (printRecord r @ CHR '','' # printRecords (r' # rs) @ CHR '']'' # rest)
               = Inr (r, CHR '','' # printRecords (r' # rs) @ CHR '']'' # rest)"
    by (rule parseRecord_print)
  moreover from "3.prems" "3.IH"
  have "parseRecords (printRecords (r' # rs) @ CHR '']'' # rest) = Inr (r' # rs, rest)"
    by simp
  ultimately show ?case
    by (subst parseRecords.simps) simp
qed

lemma JSON_roundtrip:
  assumes "list_all wellTyped h"
  shows "JSON_parse (JSON_stringify h) = Inr h"
proof (cases h)
  case Nil
  then show ?thesis by (simp add: JSON_parse_def JSON_stringify_def)
next
  case (Cons r rs)
  then have ne: "h \<noteq> []" by simp
  have "printRecords h \<noteq> []"
    unfolding Cons by (cases rs) (simp_all add: printRecord_nonempty)
  then have "printRecords h @ '']'' \<noteq> '']''" by simp
  moreover have "parseRecords (printRecords h @ '']'') = Inr (h, [])"
    using parseRecords_print [OF ne assms, of "[]"] by simp
  ultimately show ?thesis
    by (simp add: JSON_parse_def JSON_stringify_def)
qed

lemma JSON_stringify_nonempty: "JSON_stringify h \<noteq> []"
  by (simp add: JSON_stringify_def)

lemma loadHistory_persisted:
  assumes "list_all wellTyped (history st)"
  shows "loadHistory (initialState onLine (localStorage (persistHistory st)))
           = Inr ((initialState onLine (localStorage (persistHistory st)))
                    \<lparr>history := history st\<rparr>)"
  by (simp add: loadHistory_def persistHistory_def initialState_def JSON_stringify_nonempty
        JSON_roundtrip [OF assms])

lemma mount_persisted:
  assumes "list_all wellTyped (history st)"
  shows "\<exists>st'. mount onLine (localStorage (persistHistory st)) = Inr st'
           \<and> history st' = history st
           \<and> localStorage st' storageKey = Some (JSON_stringify (history st))"
proof -
  let ?st0 = "initialState onLine (localStorage (persistHistory st))"
  let ?st2 = "commit (persistHistory ?st0) ((persistHistory ?st0)\<lparr>history := history st\<rparr>)"
  have l: "loadHistory ?st0 = Inr (?st0\<lparr>history := history st\<rparr>)"
    by (rule loadHistory_persisted [OF assms])
  have e: "history ?st0 = []" by (simp add: initialState_def)
  have "mount onLine (localStorage (persistHistory st)) = Inr ?st2"
    by (simp add: mount_def Let_def l)
  moreover have "history ?st2 = history st"
    by (simp add: commit_def persistHistory_def)
  moreover have "localStorage ?st2 storageKey = Some (JSON_stringify (history st))"
    using e by (auto simp: commit_def persistHistory_def)
  ultimately show ?thesis by blast
qed

lemma mount_fresh:
  assumes "storage storageKey = None"
  shows "\<exists>st'. mount onLine storage = Inr st' \<and> history st' = []
           \<and> localStorage st' storageKey = Some ''[]''"
  using assms
  by (simp add: mount_def Let_def loadHistory_def commit_def persistHistory_def
        initialState_def JSON_stringify_def)

text \<open>
  A record whose translated text is an inherited function is written without that member,
  and read back with the member undefined.
\<close>

lemma parseTranslated_absent:
  "parseTranslated (memberFromLang @ rest) = Inr (JUndefined, memberFromLang @ rest)"
  by (simp add: parseTranslated_def expect_def memberFromLang_def memberTranslatedText_def)

lemma parseRecord_print_inherited:
  assumes "translatedText r = JInherited k" and "k \<noteq> ''__proto__''"
  shows "parseRecord (printRecord r @ rest) = Inr (r\<lparr>translatedText := JUndefined\<rparr>, rest)"
proof -
  have b: "\<not> isDigit (CHR ''}'')" by (simp add: isDigit_def)
  have n: "parseNumber (Number_toString (timestamp r) @ CHR ''}'' # rest)
             = Inr (timestamp r, CHR ''}'' # rest)"
    using b by (rule parseNumber_print)
  have e: "expect ''}'' (CHR ''}'' # rest) = Inr rest"
    by (simp add: expect_def)
  have t: "printTranslated (translatedText r) = []"
    using assms by (simp add: printTranslated_def)
  show ?thesis
    by (simp add: parseRecord_def printRecord_def expect_append parseString_print t n e bind_def
          parseTranslated_absent)
qed

lemma JSON_drops_inherited_member:
  assumes "translatedText r = JInherited k" and "k \<noteq> ''__proto__''"
  shows "JSON_parse (JSON_stringify [r]) = Inr [r\<lparr>translatedText := JUndefined\<rparr>]"
proof -
  have "parseRecords (printRecord r @ '']'') = Inr ([r\<lparr>translatedText := JUndefined\<rparr>], [])"
    using parseRecord_print_inherited [OF assms, of "'']''"]
    by (subst parseRecords.simps) simp
  moreover have "printRecord r @ '']'' \<noteq> '']''"
    by (simp add: printRecord_nonempty)
  ultimately show ?thesis
    by (simp add: JSON_parse_def JSON_stringify_def)
qed

text \<open>
  C6: the persisting effect writes the serialised history under \<open>lingoflow_history\<close> and
  touches nothing else, and it runs whenever the history has changed; serialising a list of
  records whose translated text is a string and parsing the result gives the list back;
  so a startup that finds what was persisted restores the history, and a startup that
  finds nothing under the key starts with the empty history.
\<close>

theorem history_persistence:
  "storageKey = ''lingoflow_history''
   \<and> persistHistory st
       = st\<lparr>localStorage := (localStorage st)(storageKey \<mapsto> JSON_stringify (history st))\<rparr>
   \<and> (history after \<noteq> history before \<longrightarrow>
         history (commit before after) = history after
       \<and> localStorage (commit before after) storageKey
           = Some (JSON_stringify (history after)))
   \<and> (list_all wellTyped h \<longrightarrow> JSON_parse (JSON_stringify h) = Inr h)
   \<and> (list_all wellTyped (history st) \<longrightarrow>
         (\<exists>st'. mount onLine (localStorage (persistHistory st)) = Inr st'
            \<and> history st' = history st
            \<and> localStorage st' storageKey = Some (JSON_stringify (history st))))
   \<and> (storage storageKey = None \<longrightarrow>
         (\<exists>st'. mount onLine storage = Inr st' \<and> history st' = []
            \<and> localStorage st' storageKey = Some ''[]''))"
  using JSON_roundtrip [of h] mount_persisted [of st onLine] mount_fresh [of storage onLine]
  by (simp add: storageKey_def [symmetric] persistHistory_def commit_def)

theorem history_persistence_witness:
  "list_all wellTyped [sampleRecord]
   \<and> JSON_stringify [sampleRecord]
       = ''[{'' @ [CHR 0x22] @ ''id'' @ [CHR 0x22] @ '':'' @ [CHR 0x22] @ ''17'' @ [CHR 0x22] @ '','' @ [CHR 0x22] @ ''originalText'' @ [CHR 0x22] @ '':'' @ [CHR 0x22] @ ''Bonjour'' @ [CHR 0x22] @ '','' @ [CHR 0x22] @ ''translatedText'' @ [CHR 0x22] @ '':'' @ [CHR 0x22] @ ''hello'' @ [CHR 0x22] @ '','' @ [CHR 0x22] @ ''fromLang'' @ [CHR 0x22] @ '':'' @ [CHR 0x22] @ ''fr'' @ [CHR 0x22] @ '','' @ [CHR 0x22] @ ''toLang'' @ [CHR 0x22] @ '':'' @ [CHR 0x22] @ ''en'' @ [CHR 0x22] @ '','' @ [CHR 0x22] @ ''timestamp'' @ [CHR 0x22] @ '':18}]''
   \<and> JSON_parse (JSON_stringify [sampleRecord]) = Inr [sampleRecord]
   \<and> history ((initialState True Map.empty)\<lparr>history := [sampleRecord]\<rparr>)
       \<noteq> history (initialState True Map.empty)
   \<and> history (commit (initialState True Map.empty)
                 ((initialState True Map.empty)\<lparr>history := [sampleRecord]\<rparr>))
       = [sampleRecord]
   \<and> localStorage (commit (initialState True Map.empty)
                      ((initialState True Map.empty)\<lparr>history := [sampleRecord]\<rparr>))
        ''lingoflow_history''
       = Some (JSON_stringify [sampleRecord])"
proof -
  let ?s = "initialState True Map.empty"
  let ?s' = "?s\<lparr>history := [sampleRecord]\<rparr>"
  have w: "list_all wellTyped [sampleRecord]"
    by (simp add: wellTyped_def sampleRecord_def)
  have p: "JSON_stringify [sampleRecord]
       = ''[{'' @ [CHR 0x22] @ ''id'' @ [CHR 0x22] @ '':'' @ [CHR 0x22] @ ''17'' @ [CHR 0x22] @ '','' @ [CHR 0x22] @ ''originalText'' @ [CHR 0x22] @ '':'' @ [CHR 0x22] @ ''Bonjour'' @ [CHR 0x22] @ '','' @ [CHR 0x22] @ ''translatedText'' @ [CHR 0x22] @ '':'' @ [CHR 0x22] @ ''hello'' @ [CHR 0x22] @ '','' @ [CHR 0x22] @ ''fromLang'' @ [CHR 0x22] @ '':'' @ [CHR 0x22] @ ''fr'' @ [CHR 0x22] @ '','' @ [CHR 0x22] @ ''toLang'' @ [CHR 0x22] @ '':'' @ [CHR 0x22] @ ''en'' @ [CHR 0x22] @ '','' @ [CHR 0x22] @ ''timestamp'' @ [CHR 0x22] @ '':18}]''"
    by (simp add: JSON_stringify_def printRecord_def sampleRecord_def printString_def
          escapeChar_def escapes_def printTranslated_def Number_toString.simps
          memberId_def memberOriginalText_def memberTranslatedText_def memberFromLang_def
          memberToLang_def memberTimestamp_def)
  have c: "history ?s' \<noteq> history ?s"
    by (simp add: initialState_def)
  have h: "history ?s' = [sampleRecord]" by simp
  note T = history_persistence [where h = "[sampleRecord]" and before = ?s and after = ?s']
  from T have k: "storageKey = ''lingoflow_history''" by blast
  from T w have 1: "JSON_parse (JSON_stringify [sampleRecord]) = Inr [sampleRecord]"
    by blast
  from T c have "history (commit ?s ?s') = history ?s'"
    and "localStorage (commit ?s ?s') storageKey = Some (JSON_stringify (history ?s'))"
    by blast+
  then have 2: "history (commit ?s ?s') = [sampleRecord]"
    and 3: "localStorage (commit ?s ?s') ''lingoflow_history''
              = Some (JSON_stringify [sampleRecord])"
    unfolding h k by blast+
  from w p 1 c 2 3 show ?thesis by blast
qed

section \<open>Properties of the history\<close>

lemma onmessage_sync_history:
  "history (onmessage_sync P fromL toL t_id t_ts currentTime msg st) =
     (if turnComplete msg
         \<and> user (receivedTranscription P msg (currentTranscription st)) \<noteq> []
         \<and> truthy (model (receivedTranscription P msg (currentTranscription st)))
      then take 50 (\<lparr>id' = Number_toString t_id,
              originalText = user (receivedTranscription P msg (currentTranscription st)),
              translatedText = model (receivedTranscription P msg (currentTranscription st)),
              TranslationRecord.fromLang = code fromL,
              TranslationRecord.toLang = code toL,
              timestamp = t_ts\<rparr> # history st)
      else history st)"
  by (simp add: onmessage_sync_def Let_def stopAllAudio_eq)

lemma onmessage_resume_history:
  "history (onmessage_resume P data isInterrupted st) = history st"
  by (simp add: onmessage_resume_def Let_def stopAllAudio_eq emit_def)

lemma onmessage_history:
  "history (onmessage P fromL toL t_id t_ts currentTime msg st)
     = history (onmessage_sync P fromL toL t_id t_ts currentTime msg st)"
  by (simp add: onmessage_def Let_def onmessage_resume_history split: option.splits)

lemma history_commit: "history (commit before after) = history after"
  by (simp add: commit_def persistHistory_def)

lemma history_onClick:
  "history (onClickFromLang st) = history st" "history (onClickToLang st) = history st"
  by (simp_all add: onClickFromLang_def onClickToLang_def)

lemma history_stopSession: "history (stopSession st) = history st"
  by (simp add: stopSession_def Let_def stopAllAudio_eq emit_def)

lemma history_startSession: "history (startSession P st) = history st"
  by (simp add: startSession_def startOfflineListening_def Let_def emit_def)

lemma history_toggleTranslation: "history (toggleTranslation P st) = history st"
  by (simp add: toggleTranslation_def history_stopSession history_startSession)

lemma history_run_segment_length:
  assumes "length (history st) \<le> 50"
  shows "length (history (run_segment P seg st)) \<le> 50"
  using assms by (cases seg) (simp_all add: onmessage_sync_history onmessage_resume_history)

lemma perform_length:
  assumes "length (history st) \<le> 50"
  shows "length (history (perform P op st)) \<le> 50"
  using assms
  by (cases op)
     (simp_all add: history_commit handleOfflineTranslate_history history_run_segment_length
        history_onClick history_toggleTranslation history_stopSession)

lemma performAll_length:
  assumes "length (history st) \<le> 50"
  shows "length (history (performAll P st ops)) \<le> 50"
  using assms by (induction ops arbitrary: st) (simp_all add: perform_length)

lemma mount_stored:
  assumes "list_all wellTyped h" and "storage storageKey = Some (JSON_stringify h)"
  shows "\<exists>st'. mount onLine storage = Inr st' \<and> history st' = h"
proof -
  let ?st0 = "initialState onLine storage"
  have "loadHistory ?st0 = Inr (?st0\<lparr>history := h\<rparr>)"
    using assms(2)
    by (simp add: loadHistory_def initialState_def JSON_stringify_nonempty
          JSON_roundtrip [OF assms(1)])
  then have "mount onLine storage
               = Inr (commit (persistHistory ?st0) ((persistHistory ?st0)\<lparr>history := h\<rparr>))"
    by (simp add: mount_def Let_def)
  then show ?thesis by (simp add: history_commit)
qed

lemma offlineTranslation_Foo:
  "offlineTranslation ascii_platform (app_state.fromLang fullHistory_state)
     (app_state.toLang fullHistory_state) ''Foo'' = JString (fallbackText ''Foo'')"
proof -
  have n: "trim ascii_platform (toLowerCase ascii_platform ''Foo'') = ''foo''"
    by (simp add: ascii_normalise)
  have k: "pairKey (app_state.fromLang fullHistory_state) (app_state.toLang fullHistory_state)
             = ''fr-en''"
    by (simp add: fullHistory_state_def initialState_def pairKey_def SUPPORTED_LANGUAGES_def)
  have b: "dictionaryLookup ''fr-en'' ''foo'' = JUndefined"
    by (simp add: dictionaryLookup_def OFFLINE_DICTIONARY_def getProperty_def
          Object_prototype_keys_def)
  show ?thesis
    by (rule offlineTranslation_miss) (simp add: n k b)
qed

text \<open>
  C7, as stated: the history list always has length at most 50. It fails at startup: the
  list stored under the key is installed as it is, so a store that holds 51 records gives a
  history of 51 entries.
\<close>

theorem history_overlong_at_startup:
  "overlongStorage storageKey = Some (JSON_stringify (replicate 51 sampleRecord))
   \<and> shownAfter (mount True overlongStorage) = Some 51
   \<and> \<not> (51::nat) \<le> 50"
proof -
  have s: "overlongStorage storageKey = Some (JSON_stringify (replicate 51 sampleRecord))"
    by (simp add: overlongStorage_def)
  have w: "list_all wellTyped (replicate 51 sampleRecord)"
    by (simp add: list_all_iff wellTyped_def sampleRecord_def)
  from mount_stored [of "replicate 51 sampleRecord" overlongStorage True] w s
  have "shownAfter (mount True overlongStorage) = Some 51"
    by (auto simp: shownAfter_def)
  with s show ?thesis by simp
qed

text \<open>
  C7, amended: both operations that add to the history, \<open>handleOfflineTranslate\<close> and the
  \<open>turnComplete\<close> branch of \<open>onmessage\<close>, set it to the first fifty entries of the new
  record followed by the old list, so that right after an append the new record is first
  and the length is at most fifty; a message that completes no turn with both
  transcriptions leaves the history as it was, and so does the continuation after the
  \<open>await\<close>. A history of at most fifty entries stays within fifty under every sequence of
  operations of the mounted component. Startup installs the stored list as it is, whatever
  its length, and the empty list when nothing is stored.
\<close>

theorem history_prepend_truncate:
  "history (handleOfflineTranslate P t_id t_ts spoken st) =
     take 50 (\<lparr>id' = Number_toString t_id, originalText = spoken,
        translatedText = offlineTranslation P (app_state.fromLang st) (app_state.toLang st) spoken,
        TranslationRecord.fromLang = code (app_state.fromLang st),
        TranslationRecord.toLang = code (app_state.toLang st),
        timestamp = t_ts\<rparr> # history st)
   \<and> hd (history (handleOfflineTranslate P t_id t_ts spoken st)) =
       \<lparr>id' = Number_toString t_id, originalText = spoken,
        translatedText = offlineTranslation P (app_state.fromLang st) (app_state.toLang st) spoken,
        TranslationRecord.fromLang = code (app_state.fromLang st),
        TranslationRecord.toLang = code (app_state.toLang st),
        timestamp = t_ts\<rparr>
   \<and> length (history (handleOfflineTranslate P t_id t_ts spoken st)) \<le> 50
   \<and> history (onmessage P fromL toL t_id t_ts currentTime msg st) =
       (if turnComplete msg
           \<and> user (receivedTranscription P msg (currentTranscription st)) \<noteq> []
           \<and> truthy (model (receivedTranscription P msg (currentTranscription st)))
        then take 50 (\<lparr>id' = Number_toString t_id,
                originalText = user (receivedTranscription P msg (currentTranscription st)),
                translatedText = model (receivedTranscription P msg (currentTranscription st)),
                TranslationRecord.fromLang = code fromL,
                TranslationRecord.toLang = code toL,
                timestamp = t_ts\<rparr> # history st)
        else history st)
   \<and> (turnComplete msg
         \<and> user (receivedTranscription P msg (currentTranscription st)) \<noteq> []
         \<and> truthy (model (receivedTranscription P msg (currentTranscription st)))
       \<longrightarrow> hd (history (onmessage P fromL toL t_id t_ts currentTime msg st)) =
             \<lparr>id' = Number_toString t_id,
              originalText = user (receivedTranscription P msg (currentTranscription st)),
              translatedText = model (receivedTranscription P msg (currentTranscription st)),
              TranslationRecord.fromLang = code fromL,
              TranslationRecord.toLang = code toL,
              timestamp = t_ts\<rparr>
           \<and> length (history (onmessage P fromL toL t_id t_ts currentTime msg st)) \<le> 50)
   \<and> history (onmessage_sync P fromL toL t_id t_ts currentTime msg st)
       = history (onmessage P fromL toL t_id t_ts currentTime msg st)
   \<and> history (onmessage_resume P data isInterrupted st) = history st
   \<and> (length (history st) \<le> 50 \<longrightarrow> length (history (performAll P st ops)) \<le> 50)
   \<and> (list_all wellTyped h \<and> storage storageKey = Some (JSON_stringify h) \<longrightarrow>
        (\<exists>st'. mount onLine storage = Inr st' \<and> history st' = h))
   \<and> (storage storageKey = None \<longrightarrow>
        (\<exists>st'. mount onLine storage = Inr st' \<and> history st' = []))"
  using performAll_length [of st P ops] mount_stored [of h storage onLine]
    mount_fresh [of storage onLine]
  by (auto simp: handleOfflineTranslate_history onmessage_history onmessage_sync_history
        onmessage_resume_history)

theorem history_prepend_truncate_witness:
  "length (history fullHistory_state) = 50
   \<and> history (handleOfflineTranslate ascii_platform 7 8 ''Foo'' fullHistory_state)
       = \<lparr>id' = ''7'', originalText = ''Foo'', translatedText = JString (fallbackText ''Foo''),
          TranslationRecord.fromLang = ''fr'', TranslationRecord.toLang = ''en'',
          timestamp = 8\<rparr> # replicate 49 sampleRecord
   \<and> history (onmessage ascii_platform (SUPPORTED_LANGUAGES ! 3) (SUPPORTED_LANGUAGES ! 4)
        7 8 0 (turnMessage ''guten Tag'' ''buongiorno'') fullHistory_state)
       = \<lparr>id' = ''7'', originalText = ''guten Tag'', translatedText = JString ''buongiorno'',
          TranslationRecord.fromLang = ''de'', TranslationRecord.toLang = ''it'',
          timestamp = 8\<rparr> # replicate 49 sampleRecord
   \<and> length (history (onmessage ascii_platform (SUPPORTED_LANGUAGES ! 3) (SUPPORTED_LANGUAGES ! 4)
        7 8 0 (turnMessage ''guten Tag'' ''buongiorno'') fullHistory_state)) \<le> 50
   \<and> length (history (performAll ascii_platform fullHistory_state
        [OfflineTranslate 7 8 ''Foo'', ClickFromLang,
         Handler (Before (SUPPORTED_LANGUAGES ! 3) (SUPPORTED_LANGUAGES ! 4) 7 8 0
                    (turnMessage ''guten Tag'' ''buongiorno'')),
         ToggleTranslation])) \<le> 50
   \<and> list_all wellTyped [sampleRecord]
   \<and> (\<exists>st'. mount True (Map.empty(storageKey \<mapsto> JSON_stringify [sampleRecord])) = Inr st'
         \<and> history st' = [sampleRecord])
   \<and> (\<exists>st'. mount True Map.empty = Inr st' \<and> history st' = [])"
proof -
  let ?s = "fullHistory_state"
  let ?m = "turnMessage ''guten Tag'' ''buongiorno''"
  let ?de = "SUPPORTED_LANGUAGES ! 3"
  let ?it = "SUPPORTED_LANGUAGES ! 4"
  let ?ops = "[OfflineTranslate 7 8 ''Foo'', ClickFromLang,
               Handler (Before ?de ?it 7 8 0 ?m), ToggleTranslation]"
  let ?storage = "Map.empty(storageKey \<mapsto> JSON_stringify [sampleRecord])"
  have h: "history ?s = replicate 50 sampleRecord"
    by (simp add: fullHistory_state_def)
  then have l: "length (history ?s) = 50" by simp
  then have l': "length (history ?s) \<le> 50" by simp
  have r: "receivedTranscription ascii_platform ?m (currentTranscription ?s)
             = \<lparr>user = ''guten Tag'', model = JString ''buongiorno''\<rparr>"
    by (simp add: receivedTranscription_def turnMessage_def fullHistory_state_def
          initialState_def js_toString_def)
  have c: "code (app_state.fromLang ?s) = ''fr''" "code (app_state.toLang ?s) = ''en''"
    "code ?de = ''de''" "code ?it = ''it''" "turnComplete ?m"
    by (simp_all add: fullHistory_state_def initialState_def SUPPORTED_LANGUAGES_def
          turnMessage_def)
  have n: "Number_toString 7 = ''7''" by (simp add: Number_toString.simps)
  have t: "take 50 (x # replicate 50 sampleRecord) = x # replicate 49 sampleRecord" for x
    by simp
  have w: "list_all wellTyped [sampleRecord]"
    by (simp add: wellTyped_def sampleRecord_def)
  have k: "?storage storageKey = Some (JSON_stringify [sampleRecord])" by simp
  note T = history_prepend_truncate [where P = ascii_platform and t_id = 7 and t_ts = 8
      and spoken = "''Foo''" and st = ?s and fromL = ?de and toL = ?it and currentTime = 0
      and msg = ?m and ops = ?ops and h = "[sampleRecord]" and storage = ?storage
      and onLine = True]
  from T have "history (handleOfflineTranslate ascii_platform 7 8 ''Foo'' ?s) =
     take 50 (\<lparr>id' = Number_toString 7, originalText = ''Foo'',
        translatedText = offlineTranslation ascii_platform (app_state.fromLang ?s)
                           (app_state.toLang ?s) ''Foo'',
        TranslationRecord.fromLang = code (app_state.fromLang ?s),
        TranslationRecord.toLang = code (app_state.toLang ?s),
        timestamp = 8\<rparr> # history ?s)"
    by blast
  then have 1: "history (handleOfflineTranslate ascii_platform 7 8 ''Foo'' ?s)
       = \<lparr>id' = ''7'', originalText = ''Foo'', translatedText = JString (fallbackText ''Foo''),
          TranslationRecord.fromLang = ''fr'', TranslationRecord.toLang = ''en'',
          timestamp = 8\<rparr> # replicate 49 sampleRecord"
    by (simp only: offlineTranslation_Foo c n h t)
  from T have "history (onmessage ascii_platform ?de ?it 7 8 0 ?m ?s) =
       (if turnComplete ?m
           \<and> user (receivedTranscription ascii_platform ?m (currentTranscription ?s)) \<noteq> []
           \<and> truthy (model (receivedTranscription ascii_platform ?m (currentTranscription ?s)))
        then take 50 (\<lparr>id' = Number_toString 7,
                originalText = user (receivedTranscription ascii_platform ?m (currentTranscription ?s)),
                translatedText = model (receivedTranscription ascii_platform ?m (currentTranscription ?s)),
                TranslationRecord.fromLang = code ?de,
                TranslationRecord.toLang = code ?it,
                timestamp = 8\<rparr> # history ?s)
        else history ?s)"
    by blast
  then have 2: "history (onmessage ascii_platform ?de ?it 7 8 0 ?m ?s)
       = \<lparr>id' = ''7'', originalText = ''guten Tag'', translatedText = JString ''buongiorno'',
          TranslationRecord.fromLang = ''de'', TranslationRecord.toLang = ''it'',
          timestamp = 8\<rparr> # replicate 49 sampleRecord"
    by (simp add: r c n h)
  then have 3: "length (history (onmessage ascii_platform ?de ?it 7 8 0 ?m ?s)) \<le> 50"
    by simp
  from T l' have 4: "length (history (performAll ascii_platform ?s ?ops)) \<le> 50"
    by blast
  from T w k have 5: "\<exists>st'. mount True ?storage = Inr st' \<and> history st' = [sampleRecord]"
    by blast
  have "(Map.empty :: string \<rightharpoonup> string) storageKey = None" by simp
  with history_prepend_truncate [where storage = Map.empty and onLine = True]
  have 6: "\<exists>st'. mount True Map.empty = Inr st' \<and> history st' = []"
    by blast
  from l 1 2 3 4 w 5 6 show ?thesis by blast
qed

end
